theory Spec2Isabelle
  imports Complex_Main "HOL-Library.AList"
begin

section \<open>Exceptions\<close>

text \<open>
  Every exception that the modelled code can raise is a value.  The string carried by
  \<open>MissingQueryParameter\<close> and \<open>Http404\<close> is the detail message of the source.
  \<open>Resolver404\<close> is the \<open>Http404\<close> of Django's URL resolver for a path that no
  pattern matches, \<open>GEOSException\<close> any exception of the geometry library.
  \<open>FrameworkError\<close> stands for whatever the parent class of a view raises
  (authentication, throttling, content negotiation); \<open>AggregatorError\<close> for an
  exception of the raster package's \<open>Aggregator\<close>.
\<close>

datatype error =
    DoesNotExist string
  | ValueError
  | TypeError
  | AttributeError
  | IntegrityError
  | AggregatorError
  | MissingQueryParameter string
  | Http404 string
  | Resolver404
  | GEOSException
  | FrameworkError string

section \<open>Strings\<close>

text \<open>\<open>str(n)\<close> of a non-negative Python integer: its decimal digits.\<close>

definition digit_char :: "nat \<Rightarrow> char" where
  "digit_char d = char_of (48 + d)"

function str_nat :: "nat \<Rightarrow> string" where
  "str_nat n = (if n < 10 then [digit_char n] else str_nat (n div 10) @ [digit_char (n mod 10)])"
  by pat_completeness auto
termination
  by (relation "measure id") auto

declare str_nat.simps [simp del]

text \<open>\<open>int(s)\<close> of a string that the URL pattern \<open>[0-9]+\<close> has matched.\<close>

definition is_digit :: "char \<Rightarrow> bool" where
  "is_digit c = (48 \<le> (of_char c :: nat) \<and> (of_char c :: nat) \<le> 57)"

definition int_of_digits :: "string \<Rightarrow> nat" where
  "int_of_digits s = foldl (\<lambda>acc c. 10 * acc + ((of_char c :: nat) - 48)) 0 s"

text \<open>
  Python's \<open>str.lower\<close> works on Unicode text and is not defined here: the functions
  that call it take it as the parameter \<open>lower\<close>.  On text made of ASCII characters
  only it is the function \<open>ascii_lower\<close>, which the small world below uses.
\<close>

definition ascii_lower_char :: "char \<Rightarrow> char" where
  "ascii_lower_char c =
     (if 65 \<le> (of_char c :: nat) \<and> (of_char c :: nat) \<le> 90
      then char_of ((of_char c :: nat) + 32) else c)"

definition ascii_lower :: "string \<Rightarrow> string" where
  "ascii_lower s = map ascii_lower_char s"

text \<open>\<open>sep.join(xs)\<close>.\<close>

fun join :: "string \<Rightarrow> string list \<Rightarrow> string" where
  "join sep [] = []"
| "join sep [x] = x"
| "join sep (x # y # ys) = x @ sep @ join sep (y # ys)"

section \<open>The hstore type\<close>

text \<open>
  An \<open>HStoreField\<close> holds a dictionary from strings to strings.  It is written as
  an association list and read through \<open>map_of\<close>; the database compares two hstore
  values as mappings, whatever the order of their pairs.
\<close>

type_synonym hstore = "(string \<times> string) list"

definition hstore_eq :: "hstore \<Rightarrow> hstore \<Rightarrow> bool" where
  "hstore_eq xs ys =
     (\<forall>k \<in> set (map fst xs) \<union> set (map fst ys). map_of xs k = map_of ys k)"

text \<open>\<open>d.values()\<close>: one value for each key.\<close>

definition hstore_values :: "hstore \<Rightarrow> string list" where
  "hstore_values xs = map snd (AList.clearjunk xs)"

section \<open>The data model (\<open>models.py\<close>)\<close>

text \<open>
  One record for each model class, with the fields of the source; the field \<open>modified\<close>
  and \<open>created\<close> time stamps, the description and the uploaded file of a layer are
  left out, no modelled function reads them.  A float is passed through as a \<open>real\<close>.
  An instance that has not been saved has no primary key.
\<close>

record AggregationLayer =
  lyr_id :: nat
  lyr_name :: "string option"
  lyr_name_column :: string
  lyr_min_zoom_level :: int
  lyr_max_zoom_level :: int
  lyr_simplification_tolerance :: real
  lyr_parse_log :: "string option"

record AggregationLayerGroup =
  grp_id :: nat
  grp_name :: string

record AggregationLayerZoomRange =
  zr_id :: nat
  zr_aggregationlayergroup :: nat
  zr_aggregationlayer :: nat
  zr_min_zoom :: int
  zr_max_zoom :: int

record 'g AggregationArea =
  area_id :: "nat option"
  area_name :: "string option"
  area_aggregationlayer :: "nat option"
  area_geom :: 'g
  area_geom_simplified :: "'g option"

record ValueCountResult =
  vcr_id :: "nat option"
  vcr_aggregationarea :: nat
  vcr_formula :: string
  vcr_layer_names :: hstore
  vcr_zoom :: nat
  vcr_units :: string
  vcr_grouping :: string
  vcr_value :: hstore

text \<open>
  The database: one list of rows for each table.  \<open>db_result_rasterlayers\<close> is the
  table behind the many-to-many field \<open>ValueCountResult.rasterlayers\<close>, a list of
  pairs (result id, raster layer id); \<open>db_rasterlayers\<close> holds the ids of the
  \<open>RasterLayer\<close> rows of the raster package.  The two counters are the sequences
  that hand out primary keys.
\<close>

record 'g database =
  db_layers :: "AggregationLayer list"
  db_groups :: "AggregationLayerGroup list"
  db_zoomranges :: "AggregationLayerZoomRange list"
  db_areas :: "'g AggregationArea list"
  db_results :: "ValueCountResult list"
  db_result_rasterlayers :: "(nat \<times> nat) list"
  db_rasterlayers :: "nat list"
  db_area_seq :: nat
  db_result_seq :: nat

section \<open>\<open>ValueCountResult\<close>\<close>

text \<open>
  \<open>unique_together = ('aggregationarea', 'formula', 'layer_names', 'zoom', 'units',
  'grouping')\<close>: the test the database makes between a row to be written and a row
  of the table.
\<close>

definition same_unique_together :: "ValueCountResult \<Rightarrow> ValueCountResult \<Rightarrow> bool" where
  "same_unique_together r s =
     (vcr_aggregationarea r = vcr_aggregationarea s \<and>
      vcr_formula r = vcr_formula s \<and>
      hstore_eq (vcr_layer_names r) (vcr_layer_names s) \<and>
      vcr_zoom r = vcr_zoom s \<and>
      vcr_units r = vcr_units s \<and>
      vcr_grouping r = vcr_grouping s)"

text \<open>
  \<open>models.Model.save\<close> for a result.  An instance without primary key is inserted
  under the next value of the sequence, which is used up whether the insertion succeeds
  or not; an instance with a primary key replaces the row of that key, and is inserted
  under it when there is none.  The database refuses the write with
  \<open>IntegrityError\<close> when the key is taken or when another row has the same
  \<open>unique_together\<close> columns.
\<close>

definition Model_save_result ::
  "'g database \<Rightarrow> ValueCountResult \<Rightarrow> (error + ValueCountResult) \<times> 'g database" where
  "Model_save_result db r =
     (case vcr_id r of
        None \<Rightarrow>
          (let pk = db_result_seq db;
               r' = r\<lparr>vcr_id := Some pk\<rparr>;
               db1 = db\<lparr>db_result_seq := pk + 1\<rparr>
           in if list_ex (\<lambda>s. vcr_id s = Some pk \<or> same_unique_together r' s) (db_results db)
              then (Inl IntegrityError, db1)
              else (Inr r', db1\<lparr>db_results := db_results db @ [r']\<rparr>))
      | Some pk \<Rightarrow>
          (let others = filter (\<lambda>s. vcr_id s \<noteq> Some pk) (db_results db)
           in if list_ex (same_unique_together r) others
              then (Inl IntegrityError, db)
              else (Inr r, db\<lparr>db_results := others @ [r]\<rparr>)))"

text \<open>
  The loop at the end of \<open>ValueCountResult.save\<close>: for every value of
  \<open>layer_names\<close>, \<open>RasterLayer.objects.get(id=layer_id)\<close>, then
  \<open>self.rasterlayers.add(lyr)\<close>.  \<open>to_python\<close> is the conversion of the string to
  a primary key that the lookup makes.  The table as it is when an exception stops the
  loop is returned with the exception.  (The related manager of an instance without
  primary key raises \<open>ValueError\<close>; after \<open>Model.save\<close> the instance has one.)
\<close>

fun add_rasterlayers ::
  "(string \<Rightarrow> nat option) \<Rightarrow> nat list \<Rightarrow> nat \<Rightarrow> string list \<Rightarrow> (nat \<times> nat) list
     \<Rightarrow> error option \<times> (nat \<times> nat) list" where
  "add_rasterlayers to_python layers pk [] m2m = (None, m2m)"
| "add_rasterlayers to_python layers pk (layer_id # rest) m2m =
     (case to_python layer_id of
        None \<Rightarrow> (Some ValueError, m2m)
      | Some l \<Rightarrow>
          if l \<notin> set layers then (Some (DoesNotExist ''RasterLayer''), m2m)
          else add_rasterlayers to_python layers pk rest
                 (if (pk, l) \<in> set m2m then m2m else m2m @ [(pk, l)]))"

text \<open>
  \<open>ValueCountResult.save\<close>.  \<open>Aggregator\<close> is the constructor of the raster package
  followed by \<open>value_count()\<close>, with the arguments in the order \<open>layer_dict\<close>,
  \<open>formula\<close>, \<open>zoom\<close>, \<open>geom\<close>, \<open>acres\<close>, \<open>grouping\<close>; \<open>str\<close> is Python's
  \<open>str\<close> on the counts it returns, \<open>lower\<close> its \<open>str.lower\<close>.  The result is the
  exception or the saved instance, and the database as the call leaves it.
\<close>

definition ValueCountResult_save ::
  "(string \<Rightarrow> string) \<Rightarrow> (hstore \<Rightarrow> string \<Rightarrow> nat \<Rightarrow> 'g \<Rightarrow> bool \<Rightarrow> string \<Rightarrow> error + (string \<times> 'c) list)
     \<Rightarrow> ('c \<Rightarrow> string) \<Rightarrow> (string \<Rightarrow> nat option)
     \<Rightarrow> 'g database \<Rightarrow> ValueCountResult \<Rightarrow> (error + ValueCountResult) \<times> 'g database" where
  "ValueCountResult_save lower Aggregator str to_python db self =
     (case find (\<lambda>a. area_id a = Some (vcr_aggregationarea self)) (db_areas db) of
        None \<Rightarrow> (Inl (DoesNotExist ''AggregationArea''), db)
      | Some area \<Rightarrow>
         (case Aggregator (vcr_layer_names self) (vcr_formula self) (vcr_zoom self)
                 (area_geom area) (lower (vcr_units self) = ''acres'') (vcr_grouping self) of
            Inl e \<Rightarrow> (Inl e, db)
          | Inr aggregation_result \<Rightarrow>
             (let self1 = self\<lparr>vcr_value := map (\<lambda>(k, v). (k, str v)) aggregation_result\<rparr>
              in case Model_save_result db self1 of
                   (Inl e, db1) \<Rightarrow> (Inl e, db1)
                 | (Inr self2, db2) \<Rightarrow>
                    (case vcr_id self2 of
                       None \<Rightarrow> (Inl ValueError, db2)
                     | Some pk \<Rightarrow>
                        (case add_rasterlayers to_python (db_rasterlayers db2) pk
                                (hstore_values (vcr_layer_names self2))
                                (db_result_rasterlayers db2) of
                           (Some e, m2m) \<Rightarrow> (Inl e, db2\<lparr>db_result_rasterlayers := m2m\<rparr>)
                         | (None, m2m) \<Rightarrow> (Inr self2, db2\<lparr>db_result_rasterlayers := m2m\<rparr>))))))"

text \<open>
  \<open>QuerySet.delete\<close> on results: the rows go, and with them their rows of the
  many-to-many table.
\<close>

definition delete_results :: "(ValueCountResult \<Rightarrow> bool) \<Rightarrow> 'g database \<Rightarrow> 'g database" where
  "delete_results P db =
     (let gone = map vcr_id (filter P (db_results db))
      in db\<lparr>db_results := filter (\<lambda>r. \<not> P r) (db_results db),
            db_result_rasterlayers :=
              filter (\<lambda>(i, l). Some i \<notin> set gone) (db_result_rasterlayers db)\<rparr>)"

text \<open>The lookup \<open>filter(rasterlayers=instance)\<close> through the many-to-many table.\<close>

definition depends_on :: "'g database \<Rightarrow> nat \<Rightarrow> ValueCountResult \<Rightarrow> bool" where
  "depends_on db l r = (case vcr_id r of None \<Rightarrow> False
                        | Some i \<Rightarrow> (i, l) \<in> set (db_result_rasterlayers db))"

definition remove_aggregation_results_after_rasterlayer_change ::
  "nat \<Rightarrow> 'g database \<Rightarrow> 'g database" where
  "remove_aggregation_results_after_rasterlayer_change instance db =
     delete_results (depends_on db instance) db"

text \<open>
  \<open>filter(grouping=instance.id)\<close>: \<open>grouping\<close> is a text column, the lookup value is
  the integer key of the legend, which the field turns into its decimal string.
\<close>

definition remove_aggregation_results_after_legend_change ::
  "nat \<Rightarrow> 'g database \<Rightarrow> 'g database" where
  "remove_aggregation_results_after_legend_change instance_id db =
     delete_results (\<lambda>r. vcr_grouping r = str_nat instance_id) db"

section \<open>Geometry\<close>

text \<open>
  The geometry library (GEOS, PostGIS) is a collaborator: \<open>'g\<close> is its type of
  geometries and the record below holds the operations that \<open>models.py\<close> and
  \<open>views.py\<close> call.  An operation that can raise returns an option.
  \<open>geos_convert_to_multipolygon\<close> is \<open>raster_aggregation.utils.convert_to_multipolygon\<close>,
  which is imported by the modelled files and taken as it comes.
  \<open>geos_tile_polygon x y z\<close> is the chain \<open>tile_bounds(x, y, z)\<close>,
  \<open>OGRGeometry.from_bbox\<close>, \<open>srid = WEB_MERCATOR_SRID\<close>, \<open>.geos\<close> of the view.
\<close>

record 'g geos =
  geos_simplify :: "'g \<Rightarrow> real \<Rightarrow> 'g option"
  geos_convert_to_multipolygon :: "'g \<Rightarrow> 'g option"
  geos_srid :: "'g \<Rightarrow> nat"
  geos_intersects :: "'g \<Rightarrow> 'g \<Rightarrow> bool"
  geos_Intersection :: "'g \<Rightarrow> 'g \<Rightarrow> 'g"
  geos_reproject :: "'g \<Rightarrow> nat \<Rightarrow> 'g"
  geos_tile_polygon :: "nat \<Rightarrow> nat \<Rightarrow> nat \<Rightarrow> 'g"
  geos_geojson :: "'g \<Rightarrow> string"
  geos_wkb :: "'g \<Rightarrow> string"
  geos_valid_reason :: "'g \<Rightarrow> string"
  geos_empty :: "'g \<Rightarrow> bool"

definition WEB_MERCATOR_SRID :: nat where
  "WEB_MERCATOR_SRID = 3857"

text \<open>
  The database function \<open>Transform(expr, srid)\<close>: a geometry that is in the reference
  system asked for comes back as it is, any other is reprojected.
\<close>

definition Transform :: "'g geos \<Rightarrow> 'g \<Rightarrow> nat \<Rightarrow> 'g" where
  "Transform G g s = (if geos_srid G g = s then g else geos_reproject G g s)"

section \<open>\<open>AggregationArea\<close>\<close>

text \<open>\<open>models.Model.save\<close> for an area; no uniqueness other than that of the key.\<close>

definition Model_save_area ::
  "'g database \<Rightarrow> 'g AggregationArea \<Rightarrow> (error + 'g AggregationArea) \<times> 'g database" where
  "Model_save_area db a =
     (case area_id a of
        None \<Rightarrow>
          (let pk = db_area_seq db;
               a' = a\<lparr>area_id := Some pk\<rparr>;
               db1 = db\<lparr>db_area_seq := pk + 1\<rparr>
           in if list_ex (\<lambda>b. area_id b = Some pk) (db_areas db)
              then (Inl IntegrityError, db1)
              else (Inr a', db1\<lparr>db_areas := db_areas db @ [a']\<rparr>))
      | Some pk \<Rightarrow>
          (Inr a, db\<lparr>db_areas := filter (\<lambda>b. area_id b \<noteq> Some pk) (db_areas db) @ [a]\<rparr>))"

text \<open>
  \<open>AggregationArea.save\<close>.  \<open>self.aggregationlayer\<close> is \<open>None\<close> for an area without
  layer (the foreign key is nullable), and reading \<open>simplification_tolerance\<close> from it
  raises \<open>AttributeError\<close>.
\<close>

definition AggregationArea_save ::
  "'g geos \<Rightarrow> 'g database \<Rightarrow> 'g AggregationArea \<Rightarrow> (error + 'g AggregationArea) \<times> 'g database" where
  "AggregationArea_save G db self =
     (case area_aggregationlayer self of
        None \<Rightarrow> (Inl AttributeError, db)
      | Some lid \<Rightarrow>
         (case find (\<lambda>l. lyr_id l = lid) (db_layers db) of
            None \<Rightarrow> (Inl (DoesNotExist ''AggregationLayer''), db)
          | Some aggregationlayer \<Rightarrow>
             (case geos_simplify G (area_geom self)
                     (lyr_simplification_tolerance aggregationlayer) of
                None \<Rightarrow> (Inl GEOSException, db)
              | Some geom \<Rightarrow>
                 (case geos_convert_to_multipolygon G geom of
                    None \<Rightarrow> (Inl GEOSException, db)
                  | Some geom' \<Rightarrow>
                      Model_save_area db (self\<lparr>area_geom_simplified := Some geom'\<rparr>)))))"

text \<open>
  \<open>QuerySet.delete\<close> on areas: the foreign key of \<open>ValueCountResult\<close> cascades, the
  results of a deleted area are deleted with it.
\<close>

definition delete_areas :: "('g AggregationArea \<Rightarrow> bool) \<Rightarrow> 'g database \<Rightarrow> 'g database" where
  "delete_areas P db =
     (let gone = map area_id (filter P (db_areas db))
      in delete_results (\<lambda>r. Some (vcr_aggregationarea r) \<in> set gone)
           (db\<lparr>db_areas := filter (\<lambda>a. \<not> P a) (db_areas db)\<rparr>))"

section \<open>The vector tile view (\<open>views.py\<close>, \<open>urls.py\<close>)\<close>

datatype response = HttpResponse string string

text \<open>
  \<open>QuerySet.first()\<close> on a query set without ordering: Django orders it by primary key
  and returns the first row, or \<open>None\<close>.
\<close>

definition first_zoomrange ::
  "AggregationLayerZoomRange list \<Rightarrow> AggregationLayerZoomRange option" where
  "first_zoomrange rows = (case sort_key zr_id rows of [] \<Rightarrow> None | r # _ \<Rightarrow> Some r)"

text \<open>
  The query set \<open>grp.aggregationlayerzoomrange_set.filter(min_zoom__lte=z,
  max_zoom__gte=z)\<close>.
\<close>

definition covering_zoomranges ::
  "'g database \<Rightarrow> nat \<Rightarrow> nat \<Rightarrow> AggregationLayerZoomRange list" where
  "covering_zoomranges db gid z =
     filter (\<lambda>r. zr_aggregationlayergroup r = gid \<and> zr_min_zoom r \<le> int z \<and> zr_max_zoom r \<ge> int z)
       (db_zoomranges db)"

text \<open>
  The first block of \<open>VectorTilesView.get\<close>, ``Select which agglayer to use for this
  tile''.  \<open>to_python\<close> is the conversion of the captured string to the key of the
  group; \<open>z\<close> is a string of digits.
\<close>

definition select_agglayer ::
  "(string \<Rightarrow> nat option) \<Rightarrow> 'g database \<Rightarrow> string \<Rightarrow> string \<Rightarrow> error + AggregationLayer" where
  "select_agglayer to_python db layergroup z =
     (case to_python layergroup of
        None \<Rightarrow> Inl ValueError
      | Some gid \<Rightarrow>
         (case find (\<lambda>g. grp_id g = gid) (db_groups db) of
            None \<Rightarrow> Inl (DoesNotExist ''AggregationLayerGroup'')
          | Some grp \<Rightarrow>
             (case first_zoomrange (covering_zoomranges db (grp_id grp) (int_of_digits z)) of
                None \<Rightarrow> Inl (Http404 ''No layer found for this zoom level'')
              | Some layerzoomrange \<Rightarrow>
                 (case find (\<lambda>l. lyr_id l = zr_aggregationlayer layerzoomrange) (db_layers db) of
                    None \<Rightarrow> Inl (DoesNotExist ''AggregationLayer'')
                  | Some lyr \<Rightarrow> Inr lyr))))"

text \<open>
  The second block, ``Compute intersection between the tile boundary and the layer
  geometries'': the rows of the query set, each with its annotation \<open>intersection\<close>.
\<close>

definition tile_intersections ::
  "'g geos \<Rightarrow> 'g database \<Rightarrow> AggregationLayer \<Rightarrow> 'g \<Rightarrow> ('g AggregationArea \<times> 'g) list" where
  "tile_intersections G db lyr bounds =
     map (\<lambda>a. (a, Transform G (geos_Intersection G (area_geom a) bounds) WEB_MERCATOR_SRID))
       (filter (\<lambda>a. area_aggregationlayer a = Some (lyr_id lyr) \<and>
                     geos_intersects G (area_geom a) bounds)
          (db_areas db))"

text \<open>What \<open>str.format\<close> writes for a key and for a name that may be \<open>None\<close>.\<close>

definition format_id :: "nat option \<Rightarrow> string" where
  "format_id i = (case i of None \<Rightarrow> ''None'' | Some n \<Rightarrow> str_nat n)"

definition format_name :: "string option \<Rightarrow> string" where
  "format_name n = (case n of None \<Rightarrow> ''None'' | Some s \<Rightarrow> s)"

definition json_feature :: "'g geos \<Rightarrow> 'g AggregationArea \<times> 'g \<Rightarrow> string" where
  \<open>json_feature G dat =
     ''{"geometry": '' @ geos_geojson G (snd dat) @
     '', "properties": {"id": '' @ format_id (area_id (fst dat)) @
     '', "name": "'' @ format_name (area_name (fst dat)) @ ''"}}''\<close>

text \<open>
  \<open>VectorTilesView.get\<close>.  \<open>encode name features\<close> is \<open>mapbox_vector_tile.encode\<close>
  on the dictionary with that layer name and those features, a feature being the
  geometry bytes with the \<open>id\<close> and \<open>name\<close> properties.
\<close>

definition VectorTilesView_get ::
  "'g geos \<Rightarrow> (string \<Rightarrow> (string \<times> nat option \<times> string option) list \<Rightarrow> string)
     \<Rightarrow> (string \<Rightarrow> nat option) \<Rightarrow> 'g database
     \<Rightarrow> string \<Rightarrow> string \<Rightarrow> string \<Rightarrow> string \<Rightarrow> string \<Rightarrow> error + response" where
  \<open>VectorTilesView_get G encode to_python db layergroup x y z response_format =
     (case select_agglayer to_python db layergroup z of
        Inl e \<Rightarrow> Inl e
      | Inr lyr \<Rightarrow>
         (let bounds = geos_tile_polygon G (int_of_digits x) (int_of_digits y) (int_of_digits z);
              result = tile_intersections G db lyr bounds
          in if response_format = ''.json'' then
               Inr (HttpResponse
                      (''{"type": "FeatureCollection","features":['' @
                         join '','' (map (json_feature G) result) @ '']}'')
                      ''application/json'')
             else if response_format = ''.pbf'' then
               Inr (HttpResponse
                      (encode ''testlayer''
                         (map (\<lambda>dat. (geos_wkb G (snd dat), area_id (fst dat), area_name (fst dat)))
                            result))
                      ''application/octet-stream'')
             else Inl (Http404 (''Unknown response format '' @ response_format))))\<close>

text \<open>\<open>s.split(c)\<close>.\<close>

fun split_on :: "char \<Rightarrow> string \<Rightarrow> string list" where
  "split_on c [] = [[]]"
| "split_on c (x # xs) =
     (if x = c then [] # split_on c xs
      else (case split_on c xs of [] \<Rightarrow> [[x]] | w # ws \<Rightarrow> (x # w) # ws))"

text \<open>
  The pattern of \<open>urls.py\<close>,
  \<^verbatim>\<open>^vtiles/(?P<layergroup>[^/]+)/(?P<z>[0-9]+)/(?P<x>[0-9]+)/(?P<y>[0-9]+)(?P<response_format>\.json|\.pbf)$\<close>,
  on a path; the result holds the five named groups.  \<open>$\<close> also matches before a
  newline that ends the path.
\<close>

definition match_vector_tiles ::
  "string \<Rightarrow> (string \<times> string \<times> string \<times> string \<times> string) option" where
  "match_vector_tiles path =
     (let p = (if path \<noteq> [] \<and> last path = CHR 0x0A then butlast path else path)
      in case split_on CHR ''/'' p of
           [v, layergroup, z, x, rest] \<Rightarrow>
             (let y = takeWhile is_digit rest;
                  response_format = dropWhile is_digit rest
              in if v = ''vtiles'' \<and> layergroup \<noteq> [] \<and>
                    z \<noteq> [] \<and> list_all is_digit z \<and>
                    x \<noteq> [] \<and> list_all is_digit x \<and> y \<noteq> [] \<and>
                    (response_format = ''.json'' \<or> response_format = ''.pbf'')
                 then Some (layergroup, z, x, y, response_format)
                 else None)
         | _ \<Rightarrow> None)"

text \<open>A tile request: the resolver, then the view on the captured groups.\<close>

definition vector_tiles ::
  "'g geos \<Rightarrow> (string \<Rightarrow> (string \<times> nat option \<times> string option) list \<Rightarrow> string)
     \<Rightarrow> (string \<Rightarrow> nat option) \<Rightarrow> 'g database \<Rightarrow> string \<Rightarrow> error + response" where
  "vector_tiles G encode to_python db path =
     (case match_vector_tiles path of
        None \<Rightarrow> Inl Resolver404
      | Some (layergroup, z, x, y, response_format) \<Rightarrow>
          VectorTilesView_get G encode to_python db layergroup x y z response_format)"

definition is_not_found :: "error \<Rightarrow> bool" where
  "is_not_found e = (case e of Http404 _ \<Rightarrow> True | Resolver404 \<Rightarrow> True | _ \<Rightarrow> False)"

section \<open>The statistics view (\<open>views.py\<close>)\<close>

text \<open>
  \<open>request.GET\<close> is the list of the pairs of the query string; \<open>'formula' in
  request.GET\<close> asks for the key.  \<open>super_initial\<close> is \<open>initial\<close> of the parent
  class, which returns nothing or raises an exception of the framework.
\<close>

type_synonym query = "(string \<times> string) list"

definition AggregationAreaValueViewSet_initial ::
  "(query \<Rightarrow> string option) \<Rightarrow> query \<Rightarrow> error + unit" where
  "AggregationAreaValueViewSet_initial super_initial GET =
     (if ''formula'' \<notin> set (map fst GET) then
        Inl (MissingQueryParameter ''Missing query parameter: formula'')
      else if ''layers'' \<notin> set (map fst GET) then
        Inl (MissingQueryParameter ''Missing query parameter: layers'')
      else (case super_initial GET of Some msg \<Rightarrow> Inl (FrameworkError msg) | None \<Rightarrow> Inr ()))"

text \<open>
  \<open>APIView.dispatch\<close> of the framework: \<open>initial\<close> runs first, and the handler of the
  action (which serializes the areas and has their value counts computed) runs only
  when \<open>initial\<close> has returned.
\<close>

definition dispatch ::
  "(query \<Rightarrow> string option) \<Rightarrow> (query \<Rightarrow> 'g database \<Rightarrow> (error + 'r) \<times> 'g database)
     \<Rightarrow> query \<Rightarrow> 'g database \<Rightarrow> (error + 'r) \<times> 'g database" where
  "dispatch super_initial handler GET db =
     (case AggregationAreaValueViewSet_initial super_initial GET of
        Inl e \<Rightarrow> (Inl e, db)
      | Inr _ \<Rightarrow> handler GET db)"

section \<open>The shapefile parser (\<open>parser.py\<close>, \<open>AggregationLayer.log\<close>)\<close>

text \<open>
  What a run finds outside the program is its input.  A feature gives its \<open>fid\<close>, its
  geometry (\<open>None\<close> when reading \<open>feat.geom\<close> raises) and its field values
  (\<open>feat.get(column)\<close>, \<open>None\<close> when it raises).  A layer of the data source gives
  its field names, whether \<open>CoordTransform(lyr.srs, SpatialReference(WEB_MERCATOR_SRID))\<close>
  can be built, and its features.  A shapefile says whether the stored file can be
  copied to the temporary directory, whether the zip archive opens and extracts, and
  the layer \<open>DataSource(tmpdir)[0]\<close> (\<open>None\<close> when that raises).  The temporary
  directory itself is not modelled.
\<close>

record 'o Feature =
  feat_fid :: nat
  feat_geom :: "'o option"
  feat_get :: "string \<Rightarrow> string option option"

record 'o Layer =
  ogr_fields :: "string list"
  ogr_srs_ok :: bool
  ogr_features :: "'o Feature list"

record 'o shapefile =
  sf_download_ok :: bool
  sf_zip_ok :: bool
  sf_layer :: "'o Layer option"

text \<open>
  The calls into GDAL: \<open>wgsgeom.transform(ct)\<close>; \<open>coord_dim = 2\<close> followed by
  \<open>.geos\<close>; and the text that \<open>str.format\<close> writes for the list \<open>lyr.fields\<close>.
\<close>

record ('o, 'g) ogr =
  ogr_transform :: "'o \<Rightarrow> 'o option"
  ogr_geos :: "'o \<Rightarrow> 'g option"
  ogr_format_fields :: "string list \<Rightarrow> string"

text \<open>
  The state of a run: the layer instance \<open>self\<close>, the database, and the number of
  readings of the clock so far.  \<open>strftime n\<close> is what
  \<open>datetime.datetime.now().strftime('%Y-%m-%d %T')\<close> gives at reading \<open>n\<close>.
\<close>

record 'g parse_state =
  ps_self :: AggregationLayer
  ps_db :: "'g database"
  ps_clock :: nat

definition Model_save_layer :: "'g database \<Rightarrow> AggregationLayer \<Rightarrow> 'g database" where
  "Model_save_layer db l =
     db\<lparr>db_layers := filter (\<lambda>m. lyr_id m \<noteq> lyr_id l) (db_layers db) @ [l]\<rparr>"

text \<open>
  \<open>AggregationLayer.log\<close>.  \<open>parse_log\<close> is a nullable column: \<open>+=\<close> on \<open>None\<close>
  raises \<open>TypeError\<close>.
\<close>

definition AggregationLayer_log ::
  "(nat \<Rightarrow> string) \<Rightarrow> string \<Rightarrow> bool \<Rightarrow> 'g parse_state \<Rightarrow> error + 'g parse_state" where
  "AggregationLayer_log strftime msg reset st =
     (let now = ''['' @ strftime (ps_clock st) @ ''] '';
          st1 = st\<lparr>ps_clock := ps_clock st + 1\<rparr>
      in case (if reset then Some (now @ msg)
               else (case lyr_parse_log (ps_self st) of
                       None \<Rightarrow> None
                     | Some parse_log \<Rightarrow> Some (parse_log @ [CHR 0x0A] @ now @ msg))) of
           None \<Rightarrow> Inl TypeError
         | Some parse_log \<Rightarrow>
            (let self = (ps_self st)\<lparr>lyr_parse_log := Some parse_log\<rparr>
             in Inr (st1\<lparr>ps_self := self, ps_db := Model_save_layer (ps_db st) self\<rparr>)))"

text \<open>
  The body of the loop over the features up to the creation of the area: the warning
  of the first step that fails, or the geometry to store.
\<close>

definition convert_feature :: "('o, 'g) ogr \<Rightarrow> 'g geos \<Rightarrow> 'o Feature \<Rightarrow> string + 'g" where
  "convert_feature D G feat =
     (case (case feat_geom feat of None \<Rightarrow> None | Some wgsgeom \<Rightarrow> ogr_transform D wgsgeom) of
        None \<Rightarrow>
          Inl (''Warning: Failed to transform feature fid '' @ str_nat (feat_fid feat) @ [CHR 0x0A])
      | Some wgsgeom \<Rightarrow>
         (case (case ogr_geos D wgsgeom of
                  None \<Rightarrow> None
                | Some g \<Rightarrow> geos_convert_to_multipolygon G g) of
            None \<Rightarrow>
              Inl (''Warning: Failed to convert feature fid '' @ str_nat (feat_fid feat) @
                   '' to multipolygon'' @ [CHR 0x0A])
          | Some geom \<Rightarrow>
              if geos_valid_reason G geom \<noteq> ''Valid Geometry'' then
                Inl (''Warning: Found invalid geometry for feature fid '' @
                     str_nat (feat_fid feat) @ [CHR 0x0A])
              else if geos_empty G geom then
                Inl (''Warning: Failed to convert feature fid '' @ str_nat (feat_fid feat) @
                     '' to valid geometry'' @ [CHR 0x0A])
              else Inr geom))"

text \<open>
  \<open>self.aggregationarea_set.create(name=feat.get(self.name_column),
  aggregationlayer=self, geom=geom)\<close>: the exception, if any, and the database.
\<close>

definition create_area ::
  "'g geos \<Rightarrow> AggregationLayer \<Rightarrow> 'o Feature \<Rightarrow> 'g \<Rightarrow> 'g database
     \<Rightarrow> (error + 'g AggregationArea) \<times> 'g database" where
  "create_area G self feat geom db =
     (case feat_get feat (lyr_name_column self) of
        None \<Rightarrow> (Inl ValueError, db)
      | Some name \<Rightarrow>
          AggregationArea_save G db
            \<lparr>area_id = None, area_name = name, area_aggregationlayer = Some (lyr_id self),
             area_geom = geom, area_geom_simplified = None\<rparr>)"

fun parse_features ::
  "(nat \<Rightarrow> string) \<Rightarrow> ('o, 'g) ogr \<Rightarrow> 'g geos \<Rightarrow> 'o Feature list \<Rightarrow> 'g parse_state
     \<Rightarrow> error + 'g parse_state" where
  "parse_features strftime D G [] st = Inr st"
| "parse_features strftime D G (feat # feats) st =
     (case convert_feature D G feat of
        Inl warning \<Rightarrow>
          (case AggregationLayer_log strftime warning False st of
             Inl e \<Rightarrow> Inl e
           | Inr st1 \<Rightarrow> parse_features strftime D G feats st1)
      | Inr geom \<Rightarrow>
          (case create_area G (ps_self st) feat geom (ps_db st) of
             (Inr area, db1) \<Rightarrow> parse_features strftime D G feats (st\<lparr>ps_db := db1\<rparr>)
           | (Inl exc, db1) \<Rightarrow>
              (case AggregationLayer_log strftime
                      (''Warning: Failed to create AggregationArea for feature fid '' @
                       str_nat (feat_fid feat) @ [CHR 0x0A])
                      False (st\<lparr>ps_db := db1\<rparr>) of
                 Inl e \<Rightarrow> Inl e
               | Inr st1 \<Rightarrow> parse_features strftime D G feats st1)))"

text \<open>
  \<open>AggregationDataParser.parse\<close>; \<open>lower\<close> is Python's \<open>str.lower\<close>.  The first call of
  \<open>log\<close> stands under the comment ``Clean previous parse log'' and is made without
  \<open>reset\<close>, as it is modelled.
\<close>

definition parse ::
  "(string \<Rightarrow> string) \<Rightarrow> (nat \<Rightarrow> string) \<Rightarrow> ('o, 'g) ogr \<Rightarrow> 'g geos \<Rightarrow> 'o shapefile \<Rightarrow> 'g parse_state
     \<Rightarrow> error + 'g parse_state" where
  \<open>parse lower strftime D G sf st0 =
     (case AggregationLayer_log strftime
             (''Started parsing Aggregation Layer '' @ str_nat (lyr_id (ps_self st0))) False st0 of
        Inl e \<Rightarrow> Inl e
      | Inr st \<Rightarrow>
          if \<not> sf_download_ok sf then
            AggregationLayer_log strftime ''Error: Could not download file, aborted parsing'' False st
          else if \<not> sf_zip_ok sf then
            AggregationLayer_log strftime ''Error: Could not open zipfile, aborted parsing'' False st
          else
            (case sf_layer sf of
               None \<Rightarrow>
                 AggregationLayer_log strftime
                   ''Error: Failed to extract layer from shapefile, aborted parsing'' False st
             | Some lyr \<Rightarrow>
                 if lower (lyr_name_column (ps_self st)) \<notin> set (map lower (ogr_fields lyr)) then
                   AggregationLayer_log strftime
                     (''Error: Name column "'' @ lyr_name_column (ps_self st) @
                      ''" not found, aborted parsing. Available columns: '' @
                      ogr_format_fields D (ogr_fields lyr)) False st
                 else if \<not> ogr_srs_ok lyr then
                   AggregationLayer_log strftime
                     ''Error: Layer srs not specified, aborted parsing'' False st
                 else
                   (let st1 = st\<lparr>ps_db :=
                                 delete_areas
                                   (\<lambda>a. area_aggregationlayer a = Some (lyr_id (ps_self st)))
                                   (ps_db st)\<rparr>
                    in case parse_features strftime D G (ogr_features lyr) st1 of
                         Inl e \<Rightarrow> Inl e
                       | Inr st2 \<Rightarrow>
                           AggregationLayer_log strftime
                             (''Finished parsing Aggregation Layer '' @
                              str_nat (lyr_id (ps_self st2))) False st2)))\<close>

section \<open>Vocabulary of the properties\<close>

text \<open>
  The columns of \<open>unique_together\<close> of a result, the alias mapping taken as a mapping.
\<close>

definition unique_key ::
  "ValueCountResult \<Rightarrow> nat \<times> string \<times> (string \<rightharpoonup> string) \<times> nat \<times> string \<times> string" where
  "unique_key r = (vcr_aggregationarea r, vcr_formula r, map_of (vcr_layer_names r),
                   vcr_zoom r, vcr_units r, vcr_grouping r)"

text \<open>
  The databases that the modelled operations produce from one without results: saving
  a result, the two receivers, and the writes to the other tables (deleting areas, which
  cascades to their results, saving an area, saving a layer).
\<close>

inductive reachable ::
  "(string \<Rightarrow> string) \<Rightarrow> (hstore \<Rightarrow> string \<Rightarrow> nat \<Rightarrow> 'g \<Rightarrow> bool \<Rightarrow> string \<Rightarrow> error + (string \<times> 'c) list)
     \<Rightarrow> ('c \<Rightarrow> string) \<Rightarrow> (string \<Rightarrow> nat option) \<Rightarrow> 'g geos \<Rightarrow> 'g database \<Rightarrow> bool"
  for lower Aggregator str to_python G where
    empty: "db_results db = [] \<Longrightarrow> reachable lower Aggregator str to_python G db"
  | result_save:
      "reachable lower Aggregator str to_python G db \<Longrightarrow>
       ValueCountResult_save lower Aggregator str to_python db r = (res, db') \<Longrightarrow>
       reachable lower Aggregator str to_python G db'"
  | rasterlayer_change:
      "reachable lower Aggregator str to_python G db \<Longrightarrow>
       reachable lower Aggregator str to_python G
         (remove_aggregation_results_after_rasterlayer_change l db)"
  | legend_change:
      "reachable lower Aggregator str to_python G db \<Longrightarrow>
       reachable lower Aggregator str to_python G
         (remove_aggregation_results_after_legend_change l db)"
  | areas_delete:
      "reachable lower Aggregator str to_python G db \<Longrightarrow>
       reachable lower Aggregator str to_python G (delete_areas P db)"
  | area_save:
      "reachable lower Aggregator str to_python G db \<Longrightarrow>
       AggregationArea_save G db a = (ares, db') \<Longrightarrow>
       reachable lower Aggregator str to_python G db'"
  | layer_save:
      "reachable lower Aggregator str to_python G db \<Longrightarrow>
       reachable lower Aggregator str to_python G (Model_save_layer db l)"

text \<open>
  The five checks on the file that end a run of the parser: the file cannot be read,
  the archive cannot be opened, no layer can be taken from it, the name column is not
  among the fields of the layer, the coordinate transformation cannot be built.
\<close>

definition file_level_failure :: "(string \<Rightarrow> string) \<Rightarrow> AggregationLayer \<Rightarrow> 'o shapefile \<Rightarrow> bool" where
  "file_level_failure lower self sf =
     (\<not> sf_download_ok sf \<or> \<not> sf_zip_ok sf \<or>
      (case sf_layer sf of
         None \<Rightarrow> True
       | Some lyr \<Rightarrow> lower (lyr_name_column self) \<notin> set (map lower (ogr_fields lyr)) \<or>
                     \<not> ogr_srs_ok lyr))"

text \<open>
  An entry of the parse log: a line break, the time stamp between brackets, the
  message.  \<open>log_entries strftime n msgs\<close> are the entries for the messages \<open>msgs\<close>,
  the first one stamped with reading \<open>n\<close> of the clock.
\<close>

definition log_entry :: "(nat \<Rightarrow> string) \<Rightarrow> nat \<Rightarrow> string \<Rightarrow> string" where
  "log_entry strftime n msg = [CHR 0x0A] @ ''['' @ strftime n @ ''] '' @ msg"

fun log_entries :: "(nat \<Rightarrow> string) \<Rightarrow> nat \<Rightarrow> string list \<Rightarrow> string" where
  "log_entries strftime n [] = []"
| "log_entries strftime n (msg # msgs) = log_entry strftime n msg @ log_entries strftime (Suc n) msgs"

text \<open>
  The sequence of the area table is ahead of every key in use.
\<close>

definition area_seq_fresh :: "'g database \<Rightarrow> bool" where
  "area_seq_fresh db =
     (\<forall>a \<in> set (db_areas db). case area_id a of None \<Rightarrow> True | Some i \<Rightarrow> i < db_area_seq db)"

text \<open>
  What becomes of a feature in a run for the layer \<open>self\<close>: the warning for the
  step that fails (transformation, conversion to a multipolygon, validity, emptiness,
  creation of the area), or the name, geometry and simplified geometry of the area that
  is created.  \<open>warnings_of\<close> and \<open>created_of\<close> collect the two kinds in the order of
  the features.
\<close>

definition feature_outcome ::
  "('o, 'g) ogr \<Rightarrow> 'g geos \<Rightarrow> AggregationLayer \<Rightarrow> 'o Feature
     \<Rightarrow> string + (string option \<times> 'g \<times> 'g option)" where
  "feature_outcome D G self feat =
     (case convert_feature D G feat of
        Inl warning \<Rightarrow> Inl warning
      | Inr geom \<Rightarrow>
         (case (case feat_get feat (lyr_name_column self) of
                  None \<Rightarrow> None
                | Some name \<Rightarrow>
                   (case geos_simplify G geom (lyr_simplification_tolerance self) of
                      None \<Rightarrow> None
                    | Some simplified \<Rightarrow>
                       (case geos_convert_to_multipolygon G simplified of
                          None \<Rightarrow> None
                        | Some multi \<Rightarrow> Some (name, geom, Some multi)))) of
            None \<Rightarrow> Inl (''Warning: Failed to create AggregationArea for feature fid '' @
                         str_nat (feat_fid feat) @ [CHR 0x0A])
          | Some created \<Rightarrow> Inr created))"

definition warnings_of :: "('a \<Rightarrow> string + 'b) \<Rightarrow> 'a list \<Rightarrow> string list" where
  "warnings_of outcome feats =
     List.map_filter (\<lambda>f. case outcome f of Inl w \<Rightarrow> Some w | Inr _ \<Rightarrow> None) feats"

definition created_of :: "('a \<Rightarrow> string + 'b) \<Rightarrow> 'a list \<Rightarrow> 'b list" where
  "created_of outcome feats =
     List.map_filter (\<lambda>f. case outcome f of Inl _ \<Rightarrow> None | Inr c \<Rightarrow> Some c) feats"

text \<open>
  The state after a call of \<open>log\<close> that appends, and the property that the row of
  the layer in the database is the instance of the run.
\<close>

definition logged :: "(nat \<Rightarrow> string) \<Rightarrow> string \<Rightarrow> 'g parse_state \<Rightarrow> 'g parse_state" where
  "logged strftime msg st =
     (let self = (ps_self st)\<lparr>lyr_parse_log :=
                    Some (the (lyr_parse_log (ps_self st)) @ log_entry strftime (ps_clock st) msg)\<rparr>
      in st\<lparr>ps_clock := ps_clock st + 1, ps_self := self,
            ps_db := Model_save_layer (ps_db st) self\<rparr>)"

definition in_sync :: "'g parse_state \<Rightarrow> bool" where
  "in_sync st = (find (\<lambda>m. lyr_id m = lyr_id (ps_self st)) (db_layers (ps_db st)) = Some (ps_self st))"

section \<open>A small world to run the model on\<close>

text \<open>
  Geometries are boxes \<open>(x0, y0, x1, y1)\<close>, all in the Web Mercator reference
  system; tile \<open>(x, y)\<close> is the square of side 10 at \<open>(10 x, 10 y)\<close>.  The
  database has one layer group whose two zoom ranges overlap on the zoom levels 5 to 10.
\<close>

type_synonym box = "nat \<times> nat \<times> nat \<times> nat"

definition box_text :: "box \<Rightarrow> string" where
  "box_text g = (case g of (x0, y0, x1, y1) \<Rightarrow>
     ''['' @ str_nat x0 @ '','' @ str_nat y0 @ '','' @ str_nat x1 @ '','' @ str_nat y1 @ '']'')"

definition box_geos :: "box geos" where
  "box_geos =
     \<lparr>geos_simplify = (\<lambda>g tolerance. Some g),
      geos_convert_to_multipolygon = (\<lambda>g. Some g),
      geos_srid = (\<lambda>g. WEB_MERCATOR_SRID),
      geos_intersects = (\<lambda>(x0, y0, x1, y1) (u0, v0, u1, v1). x0 \<le> u1 \<and> u0 \<le> x1 \<and> y0 \<le> v1 \<and> v0 \<le> y1),
      geos_Intersection = (\<lambda>(x0, y0, x1, y1) (u0, v0, u1, v1). (max x0 u0, max y0 v0, min x1 u1, min y1 v1)),
      geos_reproject = (\<lambda>g srid. g),
      geos_tile_polygon = (\<lambda>x y z. (10 * x, 10 * y, 10 * x + 10, 10 * y + 10)),
      geos_geojson = box_text,
      geos_wkb = box_text,
      geos_valid_reason = (\<lambda>(x0, y0, x1, y1). if x0 \<le> x1 \<and> y0 \<le> y1 then ''Valid Geometry'' else ''Self-intersection''),
      geos_empty = (\<lambda>(x0, y0, x1, y1). x0 = x1 \<or> y0 = y1)\<rparr>"

definition digits_to_python :: "string \<Rightarrow> nat option" where
  "digits_to_python s = (if s \<noteq> [] \<and> list_all is_digit s then Some (int_of_digits s) else None)"

definition fixture_layer_a :: AggregationLayer where
  "fixture_layer_a = \<lparr>lyr_id = 10, lyr_name = Some ''Counties'', lyr_name_column = ''Name'',
     lyr_min_zoom_level = 0, lyr_max_zoom_level = 18, lyr_simplification_tolerance = 1 / 100,
     lyr_parse_log = Some ''''\<rparr>"

definition fixture_layer_b :: AggregationLayer where
  "fixture_layer_b = \<lparr>lyr_id = 20, lyr_name = Some ''States'', lyr_name_column = ''Name'',
     lyr_min_zoom_level = 0, lyr_max_zoom_level = 18, lyr_simplification_tolerance = 1 / 100,
     lyr_parse_log = Some ''''\<rparr>"

definition fixture_range_a :: AggregationLayerZoomRange where
  "fixture_range_a = \<lparr>zr_id = 1, zr_aggregationlayergroup = 1, zr_aggregationlayer = 10,
     zr_min_zoom = 5, zr_max_zoom = 10\<rparr>"

definition fixture_range_b :: AggregationLayerZoomRange where
  "fixture_range_b = \<lparr>zr_id = 2, zr_aggregationlayergroup = 1, zr_aggregationlayer = 20,
     zr_min_zoom = 0, zr_max_zoom = 10\<rparr>"

definition fixture_area :: "nat \<Rightarrow> string \<Rightarrow> nat \<Rightarrow> box \<Rightarrow> box AggregationArea" where
  "fixture_area i n l g = \<lparr>area_id = Some i, area_name = Some n, area_aggregationlayer = Some l,
     area_geom = g, area_geom_simplified = Some g\<rparr>"

definition fixture_db :: "box database" where
  "fixture_db =
     \<lparr>db_layers = [fixture_layer_a, fixture_layer_b],
      db_groups = [\<lparr>grp_id = 1, grp_name = ''Administrative''\<rparr>],
      db_zoomranges = [fixture_range_a, fixture_range_b],
      db_areas = [fixture_area 1 ''Coverall'' 10 (0, 0, 100, 100),
                  fixture_area 2 ''St Petersburg'' 10 (5, 5, 15, 15),
                  fixture_area 3 ''Elsewhere'' 10 (50, 50, 60, 60),
                  fixture_area 4 ''Florida'' 20 (0, 0, 200, 200)],
      db_results = [], db_result_rasterlayers = [], db_rasterlayers = [3, 4],
      db_area_seq = 5, db_result_seq = 1\<rparr>"

definition fixture_Aggregator ::
  "hstore \<Rightarrow> string \<Rightarrow> nat \<Rightarrow> box \<Rightarrow> bool \<Rightarrow> string \<Rightarrow> error + (string \<times> nat) list" where
  "fixture_Aggregator layer_dict formula zoom geom acres grouping =
     (if formula = ''a*b'' then Inr [(''1'', 605), (''4'', 56)]
      else if formula = ''a'' then Inr [(''2'', 56)]
      else Inl AggregatorError)"

definition fixture_result :: "string \<Rightarrow> hstore \<Rightarrow> string \<Rightarrow> ValueCountResult" where
  "fixture_result f ls g = \<lparr>vcr_id = None, vcr_aggregationarea = 1, vcr_formula = f,
     vcr_layer_names = ls, vcr_zoom = 11, vcr_units = '''', vcr_grouping = g, vcr_value = []\<rparr>"

definition fixture_encode :: "string \<Rightarrow> (string \<times> nat option \<times> string option) list \<Rightarrow> string" where
  "fixture_encode name features = name @ concat (map (\<lambda>(wkb, i, n). wkb @ format_id i @ format_name n) features)"

definition fixture_result_1 :: ValueCountResult where
  "fixture_result_1 = fixture_result ''a*b'' [(''a'', ''3''), (''b'', ''4'')] ''auto''"

definition fixture_result_2 :: ValueCountResult where
  "fixture_result_2 = fixture_result ''a'' [(''a'', ''4'')] ''7''"

definition fixture_db1 :: "box database" where
  "fixture_db1 =
     snd (ValueCountResult_save ascii_lower fixture_Aggregator str_nat digits_to_python fixture_db
            fixture_result_1)"

definition fixture_db2 :: "box database" where
  "fixture_db2 =
     snd (ValueCountResult_save ascii_lower fixture_Aggregator str_nat digits_to_python fixture_db1
            fixture_result_2)"

definition fixture_saved_1 :: ValueCountResult where
  "fixture_saved_1 =
     \<lparr>vcr_id = Some 1, vcr_aggregationarea = 1, vcr_formula = ''a*b'',
      vcr_layer_names = [(''a'', ''3''), (''b'', ''4'')], vcr_zoom = 11, vcr_units = '''',
      vcr_grouping = ''auto'', vcr_value = [(''1'', ''605''), (''4'', ''56'')]\<rparr>"

definition fixture_stale_area :: "box AggregationArea" where
  "fixture_stale_area =
     \<lparr>area_id = Some 2, area_name = Some ''St Petersburg'', area_aggregationlayer = Some 10,
      area_geom = (5, 5, 25, 25), area_geom_simplified = Some (5, 5, 15, 15)\<rparr>"

definition fixture_handler ::
  "query \<Rightarrow> box database \<Rightarrow> (error + ValueCountResult) \<times> box database" where
  "fixture_handler GET db =
     ValueCountResult_save ascii_lower fixture_Aggregator str_nat digits_to_python db fixture_result_1"

text \<open>
  A shapefile for the first layer of the small world with six features, four of which
  fail at one step each; the same file without projection; and a file whose archive
  cannot be opened.  The clock gives the seconds of one minute.
\<close>

definition fixture_ogr :: "(box, box) ogr" where
  "fixture_ogr =
     \<lparr>ogr_transform = (\<lambda>g. Some g),
      ogr_geos = (\<lambda>g. Some g),
      ogr_format_fields = (\<lambda>fields. ''['' @ join '', '' fields @ '']'')\<rparr>"

definition fixture_strftime :: "nat \<Rightarrow> string" where
  "fixture_strftime n = ''2016-01-01 00:00:0'' @ str_nat n"

definition fixture_feature :: "nat \<Rightarrow> box option \<Rightarrow> string option \<Rightarrow> box Feature" where
  "fixture_feature fid geom name =
     \<lparr>feat_fid = fid, feat_geom = geom,
      feat_get = (\<lambda>column. if ascii_lower column = ''name'' then map_option Some name else None)\<rparr>"

definition fixture_features :: "box Feature list" where
  "fixture_features =
     [fixture_feature 0 (Some (0, 0, 100, 100)) (Some ''Coverall''),
      fixture_feature 1 None (Some ''No geometry''),
      fixture_feature 2 (Some (9, 9, 1, 1)) (Some ''Twisted''),
      fixture_feature 3 (Some (3, 3, 3, 9)) (Some ''Flat''),
      fixture_feature 4 (Some (20, 20, 30, 30)) None,
      fixture_feature 5 (Some (5, 5, 15, 15)) (Some ''St Petersburg'')]"

definition fixture_shapefile :: "box shapefile" where
  "fixture_shapefile =
     \<lparr>sf_download_ok = True, sf_zip_ok = True,
      sf_layer = Some \<lparr>ogr_fields = [''NAME'', ''POP''], ogr_srs_ok = True,
                       ogr_features = fixture_features\<rparr>\<rparr>"

definition fixture_shapefile_no_srs :: "box shapefile" where
  "fixture_shapefile_no_srs =
     \<lparr>sf_download_ok = True, sf_zip_ok = True,
      sf_layer = Some \<lparr>ogr_fields = [''NAME'', ''POP''], ogr_srs_ok = False,
                       ogr_features = fixture_features\<rparr>\<rparr>"

definition fixture_bad_archive :: "box shapefile" where
  "fixture_bad_archive = \<lparr>sf_download_ok = True, sf_zip_ok = False, sf_layer = None\<rparr>"

definition fixture_parse_state :: "box parse_state" where
  "fixture_parse_state = \<lparr>ps_self = fixture_layer_a, ps_db = fixture_db, ps_clock = 0\<rparr>"

text \<open>
  The same run on the layer with \<open>NULL\<close> in its \<open>parse_log\<close> column, which the field
  declaration \<open>TextField(blank=True, null=True, default='')\<close> admits.
\<close>

definition fixture_null_log_state :: "box parse_state" where
  "fixture_null_log_state =
     \<lparr>ps_self = fixture_layer_a\<lparr>lyr_parse_log := None\<rparr>, ps_db = fixture_db, ps_clock = 0\<rparr>"

text \<open>
  The small world with a single area in the first layer: one whose name has a double
  quote in it, one without name (the column is nullable), one with the name \<open>None\<close>.
\<close>

definition fixture_quote_db :: "box database" where
  \<open>fixture_quote_db =
     fixture_db\<lparr>db_areas := [fixture_area 1 ''a"b'' 10 (0, 0, 100, 100)]\<rparr>\<close>

definition fixture_null_name_db :: "box database" where
  "fixture_null_name_db =
     fixture_db\<lparr>db_areas :=
       [\<lparr>area_id = Some 1, area_name = None, area_aggregationlayer = Some 10,
         area_geom = (0, 0, 100, 100), area_geom_simplified = Some (0, 0, 100, 100)\<rparr>]\<rparr>"

definition fixture_none_name_db :: "box database" where
  "fixture_none_name_db =
     fixture_db\<lparr>db_areas := [fixture_area 1 ''None'' 10 (0, 0, 100, 100)]\<rparr>"

section \<open>Uniqueness of cached results\<close>

lemma hstore_eq_map_of: "hstore_eq xs ys \<longleftrightarrow> map_of xs = map_of ys"
proof
  assume h: "hstore_eq xs ys"
  show "map_of xs = map_of ys"
  proof
    fix k
    show "map_of xs k = map_of ys k"
    proof (cases "k \<in> set (map fst xs) \<union> set (map fst ys)")
      case True
      with h show ?thesis by (simp add: hstore_eq_def)
    next
      case False
      then have "map_of xs k = None" "map_of ys k = None"
        by (simp_all add: map_of_eq_None_iff)
      then show ?thesis by simp
    qed
  qed
next
  assume "map_of xs = map_of ys"
  then show "hstore_eq xs ys" by (simp add: hstore_eq_def)
qed

lemma same_unique_together_key: "same_unique_together r s \<longleftrightarrow> unique_key r = unique_key s"
  by (auto simp: same_unique_together_def unique_key_def hstore_eq_map_of)

lemma unique_key_id_update [simp]: "unique_key (r\<lparr>vcr_id := i\<rparr>) = unique_key r"
  by (simp add: unique_key_def)

lemma unique_key_value_update [simp]: "unique_key (r\<lparr>vcr_value := v\<rparr>) = unique_key r"
  by (simp add: unique_key_def)

lemma distinct_map_filterI: "distinct (map f xs) \<Longrightarrow> distinct (map f (filter P xs))"
  by (induction xs) auto

lemma Model_save_result_distinct:
  assumes "distinct (map unique_key (db_results db))"
  shows "distinct (map unique_key (db_results (snd (Model_save_result db r))))"
proof (cases "vcr_id r")
  case None
  then show ?thesis using assms
    by (auto simp: Model_save_result_def Let_def list_ex_iff same_unique_together_key)
next
  case (Some pk)
  have "distinct (map unique_key (filter (\<lambda>s. vcr_id s \<noteq> Some pk) (db_results db)))"
    using assms by (rule distinct_map_filterI)
  with Some show ?thesis using assms
    by (auto simp: Model_save_result_def Let_def list_ex_iff same_unique_together_key)
qed

lemma Model_save_result_distinct':
  "distinct (map unique_key (db_results db)) \<Longrightarrow> Model_save_result db x = (res, db2) \<Longrightarrow>
   distinct (map unique_key (db_results db2))"
  using Model_save_result_distinct[of db x] by simp

lemma ValueCountResult_save_distinct:
  assumes "distinct (map unique_key (db_results db))"
  shows "distinct (map unique_key (db_results (snd (ValueCountResult_save lower A str tp db r))))"
  using assms
  by (auto simp: ValueCountResult_save_def Let_def
           split: option.splits sum.splits prod.splits
           dest: Model_save_result_distinct')

lemma delete_results_results:
  "db_results (delete_results P db) = filter (\<lambda>r. \<not> P r) (db_results db)"
  by (simp add: delete_results_def Let_def)

lemma delete_results_distinct:
  "distinct (map unique_key (db_results db)) \<Longrightarrow>
   distinct (map unique_key (db_results (delete_results P db)))"
  by (simp add: delete_results_def Let_def distinct_map_filterI)

lemma delete_areas_results:
  "db_results (delete_areas P db) =
     filter (\<lambda>r. Some (vcr_aggregationarea r) \<notin> set (map area_id (filter P (db_areas db)))) (db_results db)"
  by (simp add: delete_areas_def delete_results_def Let_def)

lemma Model_save_area_results: "db_results (snd (Model_save_area db a)) = db_results db"
  by (auto simp: Model_save_area_def Let_def split: option.splits)

lemma AggregationArea_save_results: "db_results (snd (AggregationArea_save G db a)) = db_results db"
  by (auto simp: AggregationArea_save_def Model_save_area_results split: option.splits)

text \<open>
  Claim C1.  In every database that the operations produce, no two rows of the result
  table have the same composite key (aggregation area, formula, layer alias mapping,
  zoom, units, grouping), the alias mapping being compared as a mapping and not as a
  list of pairs: the keys of the rows are pairwise distinct.
\<close>

theorem results_unique_together:
  assumes "reachable lower Aggregator str to_python G db"
  shows "distinct (map unique_key (db_results db))"
  using assms
proof (induction rule: reachable.induct)
  case (empty db)
  then show ?case by simp
next
  case (result_save db r res db')
  from ValueCountResult_save_distinct[OF result_save.IH, of lower Aggregator str to_python r] result_save.hyps
  show ?case by simp
next
  case (rasterlayer_change db l)
  then show ?case
    by (simp add: remove_aggregation_results_after_rasterlayer_change_def delete_results_distinct)
next
  case (legend_change db l)
  then show ?case
    by (simp add: remove_aggregation_results_after_legend_change_def delete_results_distinct)
next
  case (areas_delete db P)
  then show ?case by (simp add: delete_areas_results distinct_map_filterI)
next
  case (area_save db a ares db')
  from AggregationArea_save_results[of G db a] area_save show ?case by simp
next
  case (layer_save db l)
  then show ?case by (simp add: Model_save_layer_def)
qed

text \<open>
  Two results saved into the small world; a third one whose alias mapping lists the
  same pairs in another order is refused.
\<close>

theorem results_unique_together_witness:
  "reachable ascii_lower fixture_Aggregator str_nat digits_to_python box_geos fixture_db2 \<and>
   map vcr_id (db_results fixture_db2) = [Some 1, Some 2] \<and>
   distinct (map unique_key (db_results fixture_db2))"
proof -
  have r0: "reachable ascii_lower fixture_Aggregator str_nat digits_to_python box_geos fixture_db"
    by (rule reachable.empty) (simp add: fixture_db_def)
  have r1: "reachable ascii_lower fixture_Aggregator str_nat digits_to_python box_geos fixture_db1"
    unfolding fixture_db1_def by (rule reachable.result_save[OF r0 prod.collapse[symmetric]])
  have r2: "reachable ascii_lower fixture_Aggregator str_nat digits_to_python box_geos fixture_db2"
    unfolding fixture_db2_def by (rule reachable.result_save[OF r1 prod.collapse[symmetric]])
  have ids: "map vcr_id (db_results fixture_db2) = [Some 1, Some 2]" by code_simp
  from r2 ids results_unique_together[OF r2] show ?thesis by simp
qed

lemma fixture_db1_results:
  "db_results fixture_db1 =
     [\<lparr>vcr_id = Some 1, vcr_aggregationarea = 1, vcr_formula = ''a*b'',
       vcr_layer_names = [(''a'', ''3''), (''b'', ''4'')], vcr_zoom = 11, vcr_units = '''',
       vcr_grouping = ''auto'', vcr_value = [(''1'', ''605''), (''4'', ''56'')]\<rparr>]"
  by code_simp

lemma permuted_aliases_refused:
  "fst (ValueCountResult_save ascii_lower fixture_Aggregator str_nat digits_to_python fixture_db1
          (fixture_result ''a*b'' [(''b'', ''4''), (''a'', ''3'')] ''auto'')) = Inl IntegrityError"
  by code_simp

section \<open>Invalidation\<close>

lemma distinct_map_eqD:
  "distinct (map f xs) \<Longrightarrow> x \<in> set xs \<Longrightarrow> y \<in> set xs \<Longrightarrow> f x = f y \<Longrightarrow> x = y"
  by (auto simp: distinct_map inj_on_def)

lemma depends_on_delete_results:
  assumes "distinct (map vcr_id (db_results db))" "r \<in> set (db_results db)" "\<not> P r"
  shows "depends_on (delete_results P db) l r = depends_on db l r"
proof (cases "vcr_id r")
  case None
  then show ?thesis by (simp add: depends_on_def)
next
  case (Some i)
  have "Some i \<notin> set (map vcr_id (filter P (db_results db)))"
  proof
    assume "Some i \<in> set (map vcr_id (filter P (db_results db)))"
    then obtain s where s: "s \<in> set (db_results db)" "P s" "vcr_id s = Some i" by auto
    with assms Some have "s = r" by (auto dest: distinct_map_eqD)
    with s assms show False by simp
  qed
  with Some show ?thesis by (auto simp: depends_on_def delete_results_def Let_def)
qed

text \<open>
  Claim C2.  The receiver of the raster layer signal for layer \<open>l\<close> leaves exactly the
  results that do not depend on \<open>l\<close>: a result that depends on \<open>l\<close> is gone, any
  other is still there, row and dependencies as before.  The receiver of the legend
  signal for the legend with key \<open>g\<close> leaves exactly the results whose grouping is not
  the decimal text of \<open>g\<close>, row and dependencies as before.  Primary keys are distinct.
\<close>

theorem invalidation_deletes_exactly:
  assumes "distinct (map vcr_id (db_results db))"
  shows "db_results (remove_aggregation_results_after_rasterlayer_change l db) =
           filter (\<lambda>r. \<not> depends_on db l r) (db_results db) \<and>
         (\<forall>r \<in> set (db_results db).
            if depends_on db l r
            then r \<notin> set (db_results (remove_aggregation_results_after_rasterlayer_change l db))
            else r \<in> set (db_results (remove_aggregation_results_after_rasterlayer_change l db)) \<and>
                 (\<forall>l'. depends_on (remove_aggregation_results_after_rasterlayer_change l db) l' r =
                        depends_on db l' r)) \<and>
         db_results (remove_aggregation_results_after_legend_change g db) =
           filter (\<lambda>r. vcr_grouping r \<noteq> str_nat g) (db_results db) \<and>
         (\<forall>r \<in> set (db_results db).
            if vcr_grouping r = str_nat g
            then r \<notin> set (db_results (remove_aggregation_results_after_legend_change g db))
            else r \<in> set (db_results (remove_aggregation_results_after_legend_change g db)) \<and>
                 (\<forall>l'. depends_on (remove_aggregation_results_after_legend_change g db) l' r =
                        depends_on db l' r))"
  using assms
  by (simp add: remove_aggregation_results_after_rasterlayer_change_def
        remove_aggregation_results_after_legend_change_def delete_results_results
        depends_on_delete_results)

theorem invalidation_deletes_exactly_witness:
  "map vcr_id (db_results fixture_db2) = [Some 1, Some 2] \<and>
   db_result_rasterlayers fixture_db2 = [(1, 3), (1, 4), (2, 4)] \<and>
   map vcr_id (db_results (remove_aggregation_results_after_rasterlayer_change 3 fixture_db2)) = [Some 2] \<and>
   db_results (remove_aggregation_results_after_rasterlayer_change 3 fixture_db2) =
     filter (\<lambda>r. \<not> depends_on fixture_db2 3 r) (db_results fixture_db2) \<and>
   map vcr_id (db_results (remove_aggregation_results_after_legend_change 7 fixture_db2)) = [Some 1] \<and>
   db_results (remove_aggregation_results_after_legend_change 7 fixture_db2) =
     filter (\<lambda>r. vcr_grouping r \<noteq> str_nat 7) (db_results fixture_db2)"
proof -
  have ids: "map vcr_id (db_results fixture_db2) = [Some 1, Some 2]" by code_simp
  then have pk: "distinct (map vcr_id (db_results fixture_db2))" by simp
  have m2m: "db_result_rasterlayers fixture_db2 = [(1, 3), (1, 4), (2, 4)]" by code_simp
  have a: "map vcr_id (db_results (remove_aggregation_results_after_rasterlayer_change 3 fixture_db2)) = [Some 2]"
    by code_simp
  have b: "map vcr_id (db_results (remove_aggregation_results_after_legend_change 7 fixture_db2)) = [Some 1]"
    by code_simp
  from invalidation_deletes_exactly[OF pk, of 3 7] ids m2m a b show ?thesis by simp
qed

section \<open>Saving a result\<close>

lemma add_rasterlayers_mono:
  "add_rasterlayers tp layers pk vs m = (res, m') \<Longrightarrow> set m \<subseteq> set m'"
proof (induction vs arbitrary: m)
  case Nil
  then show ?case by simp
next
  case (Cons v vs)
  show ?case
  proof (cases "tp v")
    case None
    with Cons.prems show ?thesis by simp
  next
    case (Some l)
    show ?thesis
    proof (cases "l \<in> set layers")
      case False
      with Some Cons.prems show ?thesis by simp
    next
      case True
      with Some Cons.prems
      have "add_rasterlayers tp layers pk vs (if (pk, l) \<in> set m then m else m @ [(pk, l)]) = (res, m')"
        by simp
      from Cons.IH[OF this] show ?thesis by (auto split: if_splits)
    qed
  qed
qed

lemma add_rasterlayers_complete:
  "add_rasterlayers tp layers pk vs m = (None, m') \<Longrightarrow>
   \<forall>v \<in> set vs. \<exists>l. tp v = Some l \<and> l \<in> set layers \<and> (pk, l) \<in> set m'"
proof (induction vs arbitrary: m)
  case Nil
  then show ?case by simp
next
  case (Cons v vs)
  from Cons.prems obtain l where l: "tp v = Some l" "l \<in> set layers"
    by (auto split: option.splits if_splits)
  let ?m = "if (pk, l) \<in> set m then m else m @ [(pk, l)]"
  from Cons.prems l have rest: "add_rasterlayers tp layers pk vs ?m = (None, m')" by simp
  from add_rasterlayers_mono[OF rest] have "(pk, l) \<in> set m'" by (auto split: if_splits)
  with l Cons.IH[OF rest] show ?case by auto
qed

lemma set_hstore_values: "set (hstore_values xs) = ran (map_of xs)"
  by (simp add: hstore_values_def ran_map_of)

lemma Model_save_result_saved:
  "Model_save_result db r = (Inr saved, db2) \<Longrightarrow>
   saved \<in> set (db_results db2) \<and> (\<exists>pk. vcr_id saved = Some pk) \<and>
   vcr_value saved = vcr_value r \<and> vcr_layer_names saved = vcr_layer_names r \<and>
   db_rasterlayers db2 = db_rasterlayers db"
  by (auto simp: Model_save_result_def Let_def split: option.splits if_splits)

text \<open>
  Claim C3.  When \<open>ValueCountResult.save\<close> returns, the value stored with the result is
  the result of the aggregation with every count turned into a string by \<open>str\<close>, under
  the keys of the aggregation; and for every value of the alias mapping there is a raster
  layer with that key which the result depends on.
\<close>

theorem save_stores_value_and_dependencies:
  assumes "ValueCountResult_save lower Aggregator str to_python db self = (Inr saved, db')"
  shows "\<exists>area aggregation_result.
           find (\<lambda>a. area_id a = Some (vcr_aggregationarea self)) (db_areas db) = Some area \<and>
           Aggregator (vcr_layer_names self) (vcr_formula self) (vcr_zoom self) (area_geom area)
             (lower (vcr_units self) = ''acres'') (vcr_grouping self) = Inr aggregation_result \<and>
           vcr_value saved = map (\<lambda>(k, v). (k, str v)) aggregation_result \<and>
           saved \<in> set (db_results db') \<and>
           (\<forall>layer_id \<in> ran (map_of (vcr_layer_names self)).
              \<exists>l. to_python layer_id = Some l \<and> l \<in> set (db_rasterlayers db) \<and>
                  depends_on db' l saved)"
proof -
  from assms obtain area where area:
    "find (\<lambda>a. area_id a = Some (vcr_aggregationarea self)) (db_areas db) = Some area"
    by (auto simp: ValueCountResult_save_def split: option.splits)
  from assms area obtain aggregation_result where agg:
    "Aggregator (vcr_layer_names self) (vcr_formula self) (vcr_zoom self) (area_geom area)
       (lower (vcr_units self) = ''acres'') (vcr_grouping self) = Inr aggregation_result"
    by (auto simp: ValueCountResult_save_def split: sum.splits)
  let ?self1 = "self\<lparr>vcr_value := map (\<lambda>(k, v). (k, str v)) aggregation_result\<rparr>"
  from assms area agg obtain db2 where saved: "Model_save_result db ?self1 = (Inr saved, db2)"
    by (auto simp: ValueCountResult_save_def Let_def split: sum.splits prod.splits option.splits)
  from Model_save_result_saved[OF saved] obtain pk where pk:
    "saved \<in> set (db_results db2)" "vcr_id saved = Some pk"
    "vcr_value saved = vcr_value ?self1" "vcr_layer_names saved = vcr_layer_names self"
    "db_rasterlayers db2 = db_rasterlayers db"
    by auto
  from assms area agg saved pk obtain m2m where
    loop: "add_rasterlayers to_python (db_rasterlayers db) pk
             (hstore_values (vcr_layer_names self)) (db_result_rasterlayers db2) = (None, m2m)"
    and db': "db' = db2\<lparr>db_result_rasterlayers := m2m\<rparr>"
    by (auto simp: ValueCountResult_save_def Let_def split: prod.splits option.splits)
  from add_rasterlayers_complete[OF loop] pk db'
  have "\<forall>layer_id \<in> ran (map_of (vcr_layer_names self)).
          \<exists>l. to_python layer_id = Some l \<and> l \<in> set (db_rasterlayers db) \<and> depends_on db' l saved"
    by (simp add: set_hstore_values depends_on_def)
  with area agg pk db' show ?thesis by auto
qed

theorem save_stores_value_and_dependencies_witness:
  "ValueCountResult_save ascii_lower fixture_Aggregator str_nat digits_to_python fixture_db fixture_result_1 =
     (Inr fixture_saved_1, fixture_db1) \<and>
   vcr_value fixture_saved_1 = [(''1'', ''605''), (''4'', ''56'')] \<and>
   db_results fixture_db1 = [fixture_saved_1] \<and>
   depends_on fixture_db1 3 fixture_saved_1 \<and> depends_on fixture_db1 4 fixture_saved_1 \<and>
   (\<exists>area aggregation_result.
      find (\<lambda>a. area_id a = Some (vcr_aggregationarea fixture_result_1)) (db_areas fixture_db) = Some area \<and>
      fixture_Aggregator (vcr_layer_names fixture_result_1) (vcr_formula fixture_result_1)
        (vcr_zoom fixture_result_1) (area_geom area)
        (ascii_lower (vcr_units fixture_result_1) = ''acres'') (vcr_grouping fixture_result_1) = Inr aggregation_result \<and>
      vcr_value fixture_saved_1 = map (\<lambda>(k, v). (k, str_nat v)) aggregation_result \<and>
      fixture_saved_1 \<in> set (db_results fixture_db1) \<and>
      (\<forall>layer_id \<in> ran (map_of (vcr_layer_names fixture_result_1)).
         \<exists>l. digits_to_python layer_id = Some l \<and> l \<in> set (db_rasterlayers fixture_db) \<and>
             depends_on fixture_db1 l fixture_saved_1))"
proof -
  have f: "fst (ValueCountResult_save ascii_lower fixture_Aggregator str_nat digits_to_python fixture_db
                  fixture_result_1) = Inr fixture_saved_1"
    by code_simp
  have eq: "ValueCountResult_save ascii_lower fixture_Aggregator str_nat digits_to_python fixture_db
              fixture_result_1 = (Inr fixture_saved_1, fixture_db1)"
    unfolding fixture_db1_def using f by (metis prod.collapse)
  have v: "vcr_value fixture_saved_1 = [(''1'', ''605''), (''4'', ''56'')]" by code_simp
  have rs: "db_results fixture_db1 = [fixture_saved_1]" by code_simp
  have d: "depends_on fixture_db1 3 fixture_saved_1" "depends_on fixture_db1 4 fixture_saved_1"
    by code_simp+
  from save_stores_value_and_dependencies[OF eq] eq v rs d show ?thesis by blast
qed

section \<open>Saving an area\<close>

lemma find_Some_D: "find P xs = Some x \<Longrightarrow> P x \<and> x \<in> set xs"
  by (auto simp: find_Some_iff)

lemma Model_save_area_saved:
  "Model_save_area db a = (Inr saved, db') \<Longrightarrow>
   area_geom saved = area_geom a \<and> area_geom_simplified saved = area_geom_simplified a \<and>
   area_aggregationlayer saved = area_aggregationlayer a \<and> area_name saved = area_name a \<and>
   saved \<in> set (db_areas db') \<and>
   (\<forall>b \<in> set (db_areas db). area_id b \<noteq> area_id saved \<longrightarrow> b \<in> set (db_areas db')) \<and>
   (\<forall>b \<in> set (db_areas db'). b = saved \<or> b \<in> set (db_areas db))"
  by (auto simp: Model_save_area_def Let_def split: option.splits if_splits)

text \<open>
  Claim C4.  When \<open>AggregationArea.save\<close> returns, the simplified geometry of the saved
  area is \<open>convert_to_multipolygon\<close> of the simplification of the geometry of that same
  area at the tolerance of its layer, whatever simplified geometry the instance held
  before; the row is in the table, and the rows of the other areas are as they were.
\<close>

theorem area_save_simplifies_own_geometry:
  assumes "AggregationArea_save G db self = (Inr saved, db')"
  shows "\<exists>aggregationlayer geom geom'.
           area_aggregationlayer self = Some (lyr_id aggregationlayer) \<and>
           find (\<lambda>l. lyr_id l = lyr_id aggregationlayer) (db_layers db) = Some aggregationlayer \<and>
           geos_simplify G (area_geom self) (lyr_simplification_tolerance aggregationlayer) = Some geom \<and>
           geos_convert_to_multipolygon G geom = Some geom' \<and>
           area_geom_simplified saved = Some geom' \<and>
           area_geom saved = area_geom self \<and>
           area_aggregationlayer saved = area_aggregationlayer self \<and>
           saved \<in> set (db_areas db') \<and>
           (\<forall>b \<in> set (db_areas db). area_id b \<noteq> area_id saved \<longrightarrow> b \<in> set (db_areas db')) \<and>
           (\<forall>b \<in> set (db_areas db'). b = saved \<or> b \<in> set (db_areas db))"
proof -
  from assms obtain lid where lid: "area_aggregationlayer self = Some lid"
    by (auto simp: AggregationArea_save_def split: option.splits)
  from assms lid obtain aggregationlayer where
    lyr: "find (\<lambda>l. lyr_id l = lid) (db_layers db) = Some aggregationlayer"
    by (auto simp: AggregationArea_save_def split: option.splits)
  from find_Some_D[OF lyr] have lid_eq: "lyr_id aggregationlayer = lid" by simp
  from assms lid lyr obtain geom where
    geom: "geos_simplify G (area_geom self) (lyr_simplification_tolerance aggregationlayer) = Some geom"
    by (auto simp: AggregationArea_save_def split: option.splits)
  from assms lid lyr geom obtain geom' where
    geom': "geos_convert_to_multipolygon G geom = Some geom'"
    by (auto simp: AggregationArea_save_def split: option.splits)
  from assms lid lyr geom geom'
  have save: "Model_save_area db (self\<lparr>area_geom_simplified := Some geom'\<rparr>) = (Inr saved, db')"
    by (simp add: AggregationArea_save_def)
  from Model_save_area_saved[OF save]
  have "area_geom_simplified saved = Some geom'" "area_geom saved = area_geom self"
    "area_aggregationlayer saved = area_aggregationlayer self"
    and rows: "saved \<in> set (db_areas db')"
      "\<forall>b \<in> set (db_areas db). area_id b \<noteq> area_id saved \<longrightarrow> b \<in> set (db_areas db')"
      "\<forall>b \<in> set (db_areas db'). b = saved \<or> b \<in> set (db_areas db)"
    by simp_all
  with lid lyr lid_eq geom geom' show ?thesis by blast
qed

theorem area_save_simplifies_own_geometry_witness:
  "fst (AggregationArea_save box_geos fixture_db fixture_stale_area) =
     Inr (fixture_area 2 ''St Petersburg'' 10 (5, 5, 25, 25)) \<and>
   map area_id (db_areas (snd (AggregationArea_save box_geos fixture_db fixture_stale_area))) =
     [Some 1, Some 3, Some 4, Some 2] \<and>
   (\<exists>aggregationlayer geom geom'.
      area_aggregationlayer fixture_stale_area = Some (lyr_id aggregationlayer) \<and>
      find (\<lambda>l. lyr_id l = lyr_id aggregationlayer) (db_layers fixture_db) = Some aggregationlayer \<and>
      geos_simplify box_geos (area_geom fixture_stale_area)
        (lyr_simplification_tolerance aggregationlayer) = Some geom \<and>
      geos_convert_to_multipolygon box_geos geom = Some geom' \<and>
      area_geom_simplified (fixture_area 2 ''St Petersburg'' 10 (5, 5, 25, 25)) = Some geom')"
proof -
  have f: "fst (AggregationArea_save box_geos fixture_db fixture_stale_area) =
             Inr (fixture_area 2 ''St Petersburg'' 10 (5, 5, 25, 25))"
    by code_simp
  have eq: "AggregationArea_save box_geos fixture_db fixture_stale_area =
              (Inr (fixture_area 2 ''St Petersburg'' 10 (5, 5, 25, 25)),
               snd (AggregationArea_save box_geos fixture_db fixture_stale_area))"
    using f by (metis prod.collapse)
  have ids: "map area_id (db_areas (snd (AggregationArea_save box_geos fixture_db fixture_stale_area))) =
               [Some 1, Some 3, Some 4, Some 2]"
    by code_simp
  from area_save_simplifies_own_geometry[OF eq] f ids show ?thesis by blast
qed

section \<open>Choosing the layer of a tile\<close>

lemma first_zoomrange_None: "first_zoomrange rows = None \<longleftrightarrow> rows = []"
proof -
  have "sort_key zr_id rows = [] \<longleftrightarrow> rows = []"
    by (metis length_sort length_0_conv)
  then show ?thesis by (auto simp: first_zoomrange_def split: list.splits)
qed

lemma first_zoomrange_Some:
  assumes "first_zoomrange rows = Some r"
  shows "r \<in> set rows \<and> (\<forall>r' \<in> set rows. zr_id r \<le> zr_id r')"
proof -
  from assms obtain rest where s: "sort_key zr_id rows = r # rest"
    by (auto simp: first_zoomrange_def split: list.splits)
  have "set (sort_key zr_id rows) = set rows" by simp
  with s have mem: "r \<in> set rows" and sub: "set rows = insert r (set rest)" by auto
  have "sorted (map zr_id (sort_key zr_id rows))" by (rule sorted_sort_key)
  with s have "\<forall>r' \<in> set rest. zr_id r \<le> zr_id r'" by simp
  with mem sub show ?thesis by auto
qed

text \<open>
  Claim C5, as stated, asks for the zoom range with the lowest start when several ranges
  of the group cover the zoom level.  In the small world two ranges cover zoom 7; the
  range that starts lower belongs to the second layer, and the view chooses the first.
\<close>

theorem select_agglayer_counterexample:
  "covering_zoomranges fixture_db 1 7 = [fixture_range_a, fixture_range_b] \<and>
   zr_min_zoom fixture_range_b < zr_min_zoom fixture_range_a \<and>
   zr_aggregationlayer fixture_range_b = lyr_id fixture_layer_b \<and>
   zr_aggregationlayer fixture_range_a = lyr_id fixture_layer_a \<and>
   select_agglayer digits_to_python fixture_db ''1'' ''7'' = Inr fixture_layer_a \<and>
   select_agglayer digits_to_python fixture_db ''1'' ''7'' \<noteq> Inr fixture_layer_b"
  by code_simp

text \<open>
  Claim C5, amended.  For a group that exists and a zoom level \<open>z\<close>: when no zoom range
  of the group covers \<open>z\<close> the view raises \<open>Http404\<close>; otherwise it takes, among the
  ranges of the group with \<open>min_zoom \<le> z \<le> max_zoom\<close>, the one with the lowest primary
  key, and returns the layer of that range.
\<close>

theorem select_agglayer_lowest_pk:
  assumes "to_python layergroup = Some gid"
      and "find (\<lambda>g. grp_id g = gid) (db_groups db) = Some grp"
  shows "(covering_zoomranges db gid (int_of_digits z) = [] \<longrightarrow>
            select_agglayer to_python db layergroup z =
              Inl (Http404 ''No layer found for this zoom level'')) \<and>
         (covering_zoomranges db gid (int_of_digits z) \<noteq> [] \<longrightarrow>
            (\<exists>r \<in> set (covering_zoomranges db gid (int_of_digits z)).
               zr_min_zoom r \<le> int (int_of_digits z) \<and> int (int_of_digits z) \<le> zr_max_zoom r \<and>
               (\<forall>r' \<in> set (covering_zoomranges db gid (int_of_digits z)). zr_id r \<le> zr_id r') \<and>
               select_agglayer to_python db layergroup z =
                 (case find (\<lambda>l. lyr_id l = zr_aggregationlayer r) (db_layers db) of
                    None \<Rightarrow> Inl (DoesNotExist ''AggregationLayer'')
                  | Some lyr \<Rightarrow> Inr lyr)))"
proof -
  from find_Some_D[OF assms(2)] have gid: "grp_id grp = gid" by simp
  let ?rows = "covering_zoomranges db gid (int_of_digits z)"
  show ?thesis
  proof (cases "first_zoomrange ?rows")
    case None
    then have "?rows = []" by (simp add: first_zoomrange_None)
    with assms gid None show ?thesis by (simp add: select_agglayer_def)
  next
    case (Some r)
    from first_zoomrange_Some[OF Some]
    have r: "r \<in> set ?rows" "\<forall>r' \<in> set ?rows. zr_id r \<le> zr_id r'" by auto
    from r(1) have cov: "zr_min_zoom r \<le> int (int_of_digits z)" "int (int_of_digits z) \<le> zr_max_zoom r"
      by (auto simp: covering_zoomranges_def)
    have sel: "select_agglayer to_python db layergroup z =
                 (case find (\<lambda>l. lyr_id l = zr_aggregationlayer r) (db_layers db) of
                    None \<Rightarrow> Inl (DoesNotExist ''AggregationLayer'')
                  | Some lyr \<Rightarrow> Inr lyr)"
      using assms gid Some by (simp add: select_agglayer_def)
    from r have ne: "?rows \<noteq> []" by auto
    from r cov sel ne show ?thesis by blast
  qed
qed

theorem select_agglayer_lowest_pk_witness:
  "digits_to_python ''1'' = Some 1 \<and>
   find (\<lambda>g. grp_id g = 1) (db_groups fixture_db) = Some \<lparr>grp_id = 1, grp_name = ''Administrative''\<rparr> \<and>
   covering_zoomranges fixture_db 1 (int_of_digits ''7'') = [fixture_range_a, fixture_range_b] \<and>
   select_agglayer digits_to_python fixture_db ''1'' ''7'' = Inr fixture_layer_a \<and>
   covering_zoomranges fixture_db 1 (int_of_digits ''12'') = [] \<and>
   select_agglayer digits_to_python fixture_db ''1'' ''12'' =
     Inl (Http404 ''No layer found for this zoom level'')"
proof -
  have h1: "digits_to_python ''1'' = Some 1" by code_simp
  have h2: "find (\<lambda>g. grp_id g = 1) (db_groups fixture_db) =
              Some \<lparr>grp_id = 1, grp_name = ''Administrative''\<rparr>" by code_simp
  have c7: "covering_zoomranges fixture_db 1 (int_of_digits ''7'') = [fixture_range_a, fixture_range_b]"
    by code_simp
  have s7: "select_agglayer digits_to_python fixture_db ''1'' ''7'' = Inr fixture_layer_a"
    by code_simp
  have c12: "covering_zoomranges fixture_db 1 (int_of_digits ''12'') = []" by code_simp
  from select_agglayer_lowest_pk[where to_python = digits_to_python and layergroup = "''1''"
         and gid = 1 and db = fixture_db and z = "''12''", OF h1 h2] c12
  have s12: "select_agglayer digits_to_python fixture_db ''1'' ''12'' =
               Inl (Http404 ''No layer found for this zoom level'')" by simp
  from h1 h2 c7 s7 c12 s12 show ?thesis by simp
qed

section \<open>The features of a tile\<close>




section \<open>The formats of a tile\<close>

lemma match_vector_tiles_format:
  "match_vector_tiles path = Some (layergroup, z, x, y, response_format) \<Longrightarrow>
   response_format = ''.json'' \<or> response_format = ''.pbf''"
  by (auto simp: match_vector_tiles_def Let_def split: list.splits if_splits)

text \<open>
  What the view returns for each format, once the layer is chosen: for \<open>.json\<close> the
  text that the view puts together from the GeoJSON text of each intersection and the
  key and the name of its area, the name between double quotes as it is; for \<open>.pbf\<close>
  the encoding by \<open>mapbox_vector_tile\<close> of the same features under one layer name;
  for any other format \<open>Http404\<close>.  A request reaches the view only with one of the
  two formats: a path that the pattern does not match, as with any other suffix, is
  answered by the \<open>Http404\<close> of the resolver.
\<close>

lemma tile_response_formats:
  \<open>(select_agglayer to_python db layergroup z = Inr lyr \<longrightarrow>
      VectorTilesView_get G encode to_python db layergroup x y z ''.json'' =
        Inr (HttpResponse
               (''{"type": "FeatureCollection","features":['' @
                  join '',''
                    (map (\<lambda>(a, g). ''{"geometry": '' @ geos_geojson G g @
                                    '', "properties": {"id": '' @ format_id (area_id a) @
                                    '', "name": "'' @ format_name (area_name a) @ ''"}}'')
                       (tile_intersections G db lyr
                          (geos_tile_polygon G (int_of_digits x) (int_of_digits y) (int_of_digits z)))) @
                  '']}'')
               ''application/json'') \<and>
      VectorTilesView_get G encode to_python db layergroup x y z ''.pbf'' =
        Inr (HttpResponse
               (encode ''testlayer''
                  (map (\<lambda>(a, g). (geos_wkb G g, area_id a, area_name a))
                     (tile_intersections G db lyr
                        (geos_tile_polygon G (int_of_digits x) (int_of_digits y) (int_of_digits z)))))
               ''application/octet-stream'') \<and>
      (response_format \<noteq> ''.json'' \<and> response_format \<noteq> ''.pbf'' \<longrightarrow>
         VectorTilesView_get G encode to_python db layergroup x y z response_format =
           Inl (Http404 (''Unknown response format '' @ response_format)))) \<and>
   (response_format \<noteq> ''.json'' \<and> response_format \<noteq> ''.pbf'' \<longrightarrow>
      (\<exists>e. VectorTilesView_get G encode to_python db layergroup x y z response_format = Inl e)) \<and>
   (match_vector_tiles path = None \<longrightarrow>
      vector_tiles G encode to_python db path = Inl Resolver404 \<and> is_not_found Resolver404) \<and>
   (\<forall>lg pz px py fmt. match_vector_tiles path = Some (lg, pz, px, py, fmt) \<longrightarrow>
      (fmt = ''.json'' \<or> fmt = ''.pbf'') \<and>
      vector_tiles G encode to_python db path = VectorTilesView_get G encode to_python db lg px py pz fmt) \<and>
   is_not_found (Http404 (''Unknown response format '' @ response_format))\<close>
proof -
  have jf: "json_feature G = (\<lambda>(a, g). ''{\"geometry\": '' @ geos_geojson G g @
                                    '', \"properties\": {\"id\": '' @ format_id (area_id a) @
                                    '', \"name\": \"'' @ format_name (area_name a) @ ''\"}}'')"
    by (rule ext) (simp add: json_feature_def split: prod.splits)
  have view: "select_agglayer to_python db layergroup z = Inr lyr \<Longrightarrow>
      VectorTilesView_get G encode to_python db layergroup x y z fmt =
        (let result = tile_intersections G db lyr
                        (geos_tile_polygon G (int_of_digits x) (int_of_digits y) (int_of_digits z))
         in if fmt = ''.json'' then
              Inr (HttpResponse
                     (''{\"type\": \"FeatureCollection\",\"features\":['' @
                        join '','' (map (json_feature G) result) @ '']}'')
                     ''application/json'')
            else if fmt = ''.pbf'' then
              Inr (HttpResponse
                     (encode ''testlayer''
                        (map (\<lambda>dat. (geos_wkb G (snd dat), area_id (fst dat), area_name (fst dat)))
                           result))
                     ''application/octet-stream'')
            else Inl (Http404 (''Unknown response format '' @ fmt)))" for fmt
    by (simp add: VectorTilesView_get_def Let_def)
  have pb: "(\<lambda>dat. (geos_wkb G (snd dat), area_id (fst dat), area_name (fst dat))) =
            (\<lambda>(a, g). (geos_wkb G g, area_id a, area_name a))"
    by (rule ext) (simp split: prod.splits)
  have other: "response_format \<noteq> ''.json'' \<and> response_format \<noteq> ''.pbf'' \<longrightarrow>
      (\<exists>e. VectorTilesView_get G encode to_python db layergroup x y z response_format = Inl e)"
    by (cases "select_agglayer to_python db layergroup z")
       (simp_all add: VectorTilesView_get_def Let_def)
  have none: "match_vector_tiles path = None \<longrightarrow>
      vector_tiles G encode to_python db path = Inl Resolver404 \<and> is_not_found Resolver404"
    by (simp add: vector_tiles_def is_not_found_def)
  have some: "\<forall>lg pz px py fmt. match_vector_tiles path = Some (lg, pz, px, py, fmt) \<longrightarrow>
      (fmt = ''.json'' \<or> fmt = ''.pbf'') \<and>
      vector_tiles G encode to_python db path = VectorTilesView_get G encode to_python db lg px py pz fmt"
    by (auto simp: vector_tiles_def dest: match_vector_tiles_format)
  have nf: "is_not_found (Http404 (''Unknown response format '' @ response_format))"
    by (simp add: is_not_found_def)
  show ?thesis
    using view[of "''.json''"] view[of "''.pbf''"] view[of response_format] other none some nf
    by (simp add: Let_def jf pb)
qed

lemma tile_response_formats_fixture:
  \<open>select_agglayer digits_to_python fixture_db ''1'' ''7'' = Inr fixture_layer_a \<and>
   VectorTilesView_get box_geos fixture_encode digits_to_python fixture_db ''1'' ''0'' ''0'' ''7'' ''.xml'' =
     Inl (Http404 ''Unknown response format .xml'') \<and>
   match_vector_tiles ''vtiles/1/7/0/0.xml'' = None \<and>
   vector_tiles box_geos fixture_encode digits_to_python fixture_db ''vtiles/1/7/0/0.xml'' =
     Inl Resolver404 \<and>
   match_vector_tiles ''vtiles/1/7/0/0.pbf'' = Some (''1'', ''7'', ''0'', ''0'', ''.pbf'') \<and>
   vector_tiles box_geos fixture_encode digits_to_python fixture_db ''vtiles/1/7/0/0.pbf'' =
     Inr (HttpResponse ''testlayer[0,0,10,10]1Coverall[5,5,10,10]2St Petersburg''
            ''application/octet-stream'')\<close>
proof -
  have sel: "select_agglayer digits_to_python fixture_db ''1'' ''7'' = Inr fixture_layer_a"
    by code_simp
  have m1: "match_vector_tiles ''vtiles/1/7/0/0.xml'' = None" by code_simp
  have m2: "match_vector_tiles ''vtiles/1/7/0/0.pbf'' = Some (''1'', ''7'', ''0'', ''0'', ''.pbf'')"
    by code_simp
  have pbf: "VectorTilesView_get box_geos fixture_encode digits_to_python fixture_db
               ''1'' ''0'' ''0'' ''7'' ''.pbf'' =
             Inr (HttpResponse ''testlayer[0,0,10,10]1Coverall[5,5,10,10]2St Petersburg''
                    ''application/octet-stream'')"
    by code_simp
  note t1 = tile_response_formats[where to_python = digits_to_python and db = fixture_db
              and layergroup = "''1''" and z = "''7''" and lyr = fixture_layer_a and G = box_geos
              and encode = fixture_encode and x = "''0''" and y = "''0''"
              and response_format = "''.xml''" and path = "''vtiles/1/7/0/0.xml''"]
  note t2 = tile_response_formats[where to_python = digits_to_python and db = fixture_db
              and layergroup = "''1''" and z = "''7''" and lyr = fixture_layer_a and G = box_geos
              and encode = fixture_encode and x = "''0''" and y = "''0''"
              and response_format = "''.xml''" and path = "''vtiles/1/7/0/0.pbf''"]
  from t1 sel m1 have a: "VectorTilesView_get box_geos fixture_encode digits_to_python fixture_db
      ''1'' ''0'' ''0'' ''7'' ''.xml'' = Inl (Http404 ''Unknown response format .xml'')"
    and b: "vector_tiles box_geos fixture_encode digits_to_python fixture_db ''vtiles/1/7/0/0.xml'' =
      Inl Resolver404"
    by simp_all
  from t2 m2 pbf have c: "vector_tiles box_geos fixture_encode digits_to_python fixture_db
      ''vtiles/1/7/0/0.pbf'' =
      Inr (HttpResponse ''testlayer[0,0,10,10]1Coverall[5,5,10,10]2St Petersburg''
             ''application/octet-stream'')"
    by simp
  from sel a m1 b m2 c show ?thesis by simp
qed

text \<open>
  Claim C7 says that the format \<open>.json\<close> yields a GeoJSON feature collection whose
  features carry the intersection and, as properties, the key and the name of the area.
  The view sets the content type \<open>application/json\<close> and writes the name between
  double quotes without escaping it.  For an area named \<open>a"b\<close> the body has a
  double quote inside the text of the name, so that the text ends after \<open>a\<close> and the
  body is not JSON; and for an area without name the body is that of an area named
  \<open>None\<close>, so that the name is not carried either.
\<close>

theorem tile_json_name_not_escaped:
  \<open>VectorTilesView_get box_geos fixture_encode digits_to_python fixture_quote_db
     ''1'' ''0'' ''0'' ''7'' ''.json'' =
     Inr (HttpResponse
            (''{"type": "FeatureCollection","features":['' @
             ''{"geometry": [0,0,10,10], "properties": {"id": 1, "name": "a"b"}}'' @
             '']}'')
            ''application/json'') \<and>
   VectorTilesView_get box_geos fixture_encode digits_to_python fixture_null_name_db
     ''1'' ''0'' ''0'' ''7'' ''.json'' =
   VectorTilesView_get box_geos fixture_encode digits_to_python fixture_none_name_db
     ''1'' ''0'' ''0'' ''7'' ''.json'' \<and>
   db_areas fixture_null_name_db \<noteq> db_areas fixture_none_name_db\<close>
  by code_simp

section \<open>Required query parameters\<close>

text \<open>
  Claim C8.  A statistics request without \<open>formula\<close>, or with \<open>formula\<close> and without
  \<open>layers\<close>, is answered by \<open>MissingQueryParameter\<close> with the name of the missing
  parameter in its message, the handler of the action is not run and the database is as
  before; with both parameters no \<open>MissingQueryParameter\<close> is raised.
\<close>

theorem initial_missing_parameter:
  "(''formula'' \<notin> set (map fst GET) \<longrightarrow>
      dispatch super_initial handler GET db =
        (Inl (MissingQueryParameter ''Missing query parameter: formula''), db)) \<and>
   (''formula'' \<in> set (map fst GET) \<and> ''layers'' \<notin> set (map fst GET) \<longrightarrow>
      dispatch super_initial handler GET db =
        (Inl (MissingQueryParameter ''Missing query parameter: layers''), db)) \<and>
   (''formula'' \<in> set (map fst GET) \<and> ''layers'' \<in> set (map fst GET) \<longrightarrow>
      (\<forall>m. AggregationAreaValueViewSet_initial super_initial GET \<noteq> Inl (MissingQueryParameter m)) \<and>
      dispatch super_initial handler GET db =
        (case super_initial GET of Some msg \<Rightarrow> (Inl (FrameworkError msg), db)
         | None \<Rightarrow> handler GET db))"
  by (auto simp: dispatch_def AggregationAreaValueViewSet_initial_def split: option.splits)

theorem initial_missing_parameter_witness:
  "dispatch (\<lambda>GET. None) fixture_handler [(''layers'', ''a=3,b=4''), (''zoom'', ''11'')] fixture_db =
     (Inl (MissingQueryParameter ''Missing query parameter: formula''), fixture_db) \<and>
   dispatch (\<lambda>GET. None) fixture_handler [(''formula'', ''a*b'')] fixture_db =
     (Inl (MissingQueryParameter ''Missing query parameter: layers''), fixture_db) \<and>
   dispatch (\<lambda>GET. None) fixture_handler [(''layers'', ''a=3,b=4''), (''formula'', ''a*b'')] fixture_db =
     fixture_handler [(''layers'', ''a=3,b=4''), (''formula'', ''a*b'')] fixture_db"
  using initial_missing_parameter[of "[(''layers'', ''a=3,b=4''), (''zoom'', ''11'')]"
          "\<lambda>GET. None" fixture_handler fixture_db]
        initial_missing_parameter[of "[(''formula'', ''a*b'')]"
          "\<lambda>GET. None" fixture_handler fixture_db]
        initial_missing_parameter[of "[(''layers'', ''a=3,b=4''), (''formula'', ''a*b'')]"
          "\<lambda>GET. None" fixture_handler fixture_db]
  by simp

section \<open>The parser\<close>

lemma log_logged:
  "lyr_parse_log (ps_self st) = Some l \<Longrightarrow>
   AggregationLayer_log strftime msg False st = Inr (logged strftime msg st)"
  by (simp add: AggregationLayer_log_def logged_def log_entry_def Let_def)

lemma log_None:
  "lyr_parse_log (ps_self st) = None \<Longrightarrow> AggregationLayer_log strftime msg False st = Inl TypeError"
  by (simp add: AggregationLayer_log_def Let_def)

lemma find_saved_layer:
  "find (\<lambda>m. lyr_id m = lyr_id l) (filter (\<lambda>m. lyr_id m \<noteq> lyr_id l) xs @ [l]) = Some l"
  by (induction xs) auto

lemma logged_simps [simp]:
  "ps_clock (logged S msg st) = Suc (ps_clock st)"
  "lyr_parse_log (ps_self (logged S msg st)) =
     Some (the (lyr_parse_log (ps_self st)) @ log_entry S (ps_clock st) msg)"
  "lyr_id (ps_self (logged S msg st)) = lyr_id (ps_self st)"
  "lyr_name_column (ps_self (logged S msg st)) = lyr_name_column (ps_self st)"
  "lyr_simplification_tolerance (ps_self (logged S msg st)) = lyr_simplification_tolerance (ps_self st)"
  "db_areas (ps_db (logged S msg st)) = db_areas (ps_db st)"
  "db_results (ps_db (logged S msg st)) = db_results (ps_db st)"
  "db_result_rasterlayers (ps_db (logged S msg st)) = db_result_rasterlayers (ps_db st)"
  "db_area_seq (ps_db (logged S msg st)) = db_area_seq (ps_db st)"
  by (simp_all add: logged_def Let_def Model_save_layer_def)

lemma logged_in_sync [simp]: "in_sync (logged S msg st)"
  using find_saved_layer[of "(ps_self st)\<lparr>lyr_parse_log :=
           Some (the (lyr_parse_log (ps_self st)) @ log_entry S (ps_clock st) msg)\<rparr>"
         "db_layers (ps_db st)"]
  by (simp add: in_sync_def logged_def Let_def Model_save_layer_def)

lemma logged_fresh [simp]: "area_seq_fresh (ps_db (logged S msg st)) = area_seq_fresh (ps_db st)"
  by (simp add: area_seq_fresh_def cong: option.case_cong)

lemma feature_outcome_logged [simp]:
  "feature_outcome D G (ps_self (logged S msg st)) = feature_outcome D G (ps_self st)"
  by (rule ext) (simp add: feature_outcome_def cong: option.case_cong sum.case_cong)

lemma warnings_of_simps [simp]:
  "warnings_of f [] = []"
  "f x = Inl w \<Longrightarrow> warnings_of f (x # xs) = w # warnings_of f xs"
  "f x = Inr c \<Longrightarrow> warnings_of f (x # xs) = warnings_of f xs"
  by (simp_all add: warnings_of_def map_filter_simps)

lemma created_of_simps [simp]:
  "created_of f [] = []"
  "f x = Inl w \<Longrightarrow> created_of f (x # xs) = created_of f xs"
  "f x = Inr c \<Longrightarrow> created_of f (x # xs) = c # created_of f xs"
  by (simp_all add: created_of_def map_filter_simps)

lemma create_area_fails:
  assumes "in_sync st"
      and "convert_feature D G feat = Inr geom"
      and "feature_outcome D G (ps_self st) feat = Inl w"
  shows "\<exists>e. create_area G (ps_self st) feat geom (ps_db st) = (Inl e, ps_db st)"
    and "w = ''Warning: Failed to create AggregationArea for feature fid '' @
             str_nat (feat_fid feat) @ [CHR 0x0A]"
  using assms
  by (auto simp: feature_outcome_def create_area_def AggregationArea_save_def in_sync_def
           split: option.splits)

lemma create_area_succeeds:
  assumes "in_sync st" and "area_seq_fresh (ps_db st)"
      and "feature_outcome D G (ps_self st) feat = Inr (name, geom, simplified)"
  shows "convert_feature D G feat = Inr geom \<and>
         create_area G (ps_self st) feat geom (ps_db st) =
           (Inr \<lparr>area_id = Some (db_area_seq (ps_db st)), area_name = name,
                 area_aggregationlayer = Some (lyr_id (ps_self st)),
                 area_geom = geom, area_geom_simplified = simplified\<rparr>,
            (ps_db st)\<lparr>db_area_seq := db_area_seq (ps_db st) + 1,
                       db_areas := db_areas (ps_db st) @
                         [\<lparr>area_id = Some (db_area_seq (ps_db st)), area_name = name,
                           area_aggregationlayer = Some (lyr_id (ps_self st)),
                           area_geom = geom, area_geom_simplified = simplified\<rparr>]\<rparr>)"
proof -
  from assms(3) have conv: "convert_feature D G feat = Inr geom"
    by (auto simp: feature_outcome_def split: sum.splits option.splits)
  from assms(3) conv
  have "\<exists>s m. feat_get feat (lyr_name_column (ps_self st)) = Some name \<and>
          geos_simplify G geom (lyr_simplification_tolerance (ps_self st)) = Some s \<and>
          geos_convert_to_multipolygon G s = Some m \<and> simplified = Some m"
    by (auto simp: feature_outcome_def split: option.splits dest: sym)
  then obtain s m where parts:
    "feat_get feat (lyr_name_column (ps_self st)) = Some name"
    "geos_simplify G geom (lyr_simplification_tolerance (ps_self st)) = Some s"
    "geos_convert_to_multipolygon G s = Some m" "simplified = Some m"
    by blast
  from assms(2) have free: "\<not> list_ex (\<lambda>b. area_id b = Some (db_area_seq (ps_db st))) (db_areas (ps_db st))"
    by (auto simp: area_seq_fresh_def list_ex_iff split: option.splits)
  from assms(1) parts free conv show ?thesis
    by (simp add: create_area_def AggregationArea_save_def in_sync_def Model_save_area_def Let_def)
qed

lemma parse_features_closed:
  assumes "lyr_parse_log (ps_self st) = Some l" and "in_sync st" and "area_seq_fresh (ps_db st)"
  shows "\<exists>st' new.
     parse_features S D G feats st = Inr st' \<and>
     lyr_parse_log (ps_self st') =
       Some (l @ log_entries S (ps_clock st) (warnings_of (feature_outcome D G (ps_self st)) feats)) \<and>
     ps_clock st' = ps_clock st + length (warnings_of (feature_outcome D G (ps_self st)) feats) \<and>
     lyr_id (ps_self st') = lyr_id (ps_self st) \<and>
     in_sync st' \<and>
     db_areas (ps_db st') = db_areas (ps_db st) @ new \<and>
     map (\<lambda>a. (area_name a, area_geom a, area_geom_simplified a)) new =
       created_of (feature_outcome D G (ps_self st)) feats \<and>
     (\<forall>a \<in> set new. area_aggregationlayer a = Some (lyr_id (ps_self st))) \<and>
     db_results (ps_db st') = db_results (ps_db st) \<and>
     db_result_rasterlayers (ps_db st') = db_result_rasterlayers (ps_db st)"
  using assms
proof (induction feats arbitrary: st l)
  case Nil
  then show ?case by simp
next
  case (Cons feat feats)
  let ?out = "feature_outcome D G (ps_self st)"
  show ?case
  proof (cases "?out feat")
    case (Inl w)
    let ?st1 = "logged S w st"
    have step: "parse_features S D G (feat # feats) st = parse_features S D G feats ?st1"
    proof (cases "convert_feature D G feat")
      case (Inl w')
      with \<open>?out feat = Inl w\<close> have "w' = w" by (simp add: feature_outcome_def)
      with Inl Cons.prems(1) show ?thesis by (simp add: log_logged)
    next
      case (Inr geom)
      from create_area_fails[OF Cons.prems(2) Inr \<open>?out feat = Inl w\<close>]
      obtain e where "create_area G (ps_self st) feat geom (ps_db st) = (Inl e, ps_db st)"
        and "w = ''Warning: Failed to create AggregationArea for feature fid '' @
                   str_nat (feat_fid feat) @ [CHR 0x0A]"
        by blast
      with Inr Cons.prems(1) show ?thesis by (simp add: log_logged)
    qed
    have l1: "lyr_parse_log (ps_self ?st1) = Some (l @ log_entry S (ps_clock st) w)"
      using Cons.prems(1) by simp
    have f1: "area_seq_fresh (ps_db ?st1)" using Cons.prems(3) by simp
    from Cons.IH[OF l1 logged_in_sync f1] obtain st' new where IH:
      "parse_features S D G feats ?st1 = Inr st'"
      "lyr_parse_log (ps_self st') =
         Some ((l @ log_entry S (ps_clock st) w) @
               log_entries S (ps_clock ?st1) (warnings_of (feature_outcome D G (ps_self ?st1)) feats))"
      "ps_clock st' = ps_clock ?st1 + length (warnings_of (feature_outcome D G (ps_self ?st1)) feats)"
      "lyr_id (ps_self st') = lyr_id (ps_self ?st1)"
      "in_sync st'"
      "db_areas (ps_db st') = db_areas (ps_db ?st1) @ new"
      "map (\<lambda>a. (area_name a, area_geom a, area_geom_simplified a)) new =
         created_of (feature_outcome D G (ps_self ?st1)) feats"
      "\<forall>a \<in> set new. area_aggregationlayer a = Some (lyr_id (ps_self ?st1))"
      "db_results (ps_db st') = db_results (ps_db ?st1)"
      "db_result_rasterlayers (ps_db st') = db_result_rasterlayers (ps_db ?st1)"
      by blast
    from IH step Inl show ?thesis by (intro exI[of _ st'] exI[of _ new]) simp
  next
    case (Inr c)
    obtain name geom simplified where c: "c = (name, geom, simplified)" by (cases c)
    let ?a = "\<lparr>area_id = Some (db_area_seq (ps_db st)), area_name = name,
               area_aggregationlayer = Some (lyr_id (ps_self st)),
               area_geom = geom, area_geom_simplified = simplified\<rparr>"
    let ?db1 = "(ps_db st)\<lparr>db_area_seq := db_area_seq (ps_db st) + 1,
                            db_areas := db_areas (ps_db st) @ [?a]\<rparr>"
    let ?st1 = "st\<lparr>ps_db := ?db1\<rparr>"
    from create_area_succeeds[OF Cons.prems(2,3) Inr[unfolded c]]
    have conv: "convert_feature D G feat = Inr geom"
      and cr: "create_area G (ps_self st) feat geom (ps_db st) = (Inr ?a, ?db1)"
      by simp_all
    have step: "parse_features S D G (feat # feats) st = parse_features S D G feats ?st1"
      using conv cr by simp
    have l1: "lyr_parse_log (ps_self ?st1) = Some l" using Cons.prems(1) by simp
    have s1: "in_sync ?st1" using Cons.prems(2) by (simp add: in_sync_def)
    have f1: "area_seq_fresh (ps_db ?st1)"
      using Cons.prems(3) by (auto simp: area_seq_fresh_def split: option.splits)
    from Cons.IH[OF l1 s1 f1] obtain st' new where IH:
      "parse_features S D G feats ?st1 = Inr st'"
      "lyr_parse_log (ps_self st') =
         Some (l @ log_entries S (ps_clock ?st1) (warnings_of (feature_outcome D G (ps_self ?st1)) feats))"
      "ps_clock st' = ps_clock ?st1 + length (warnings_of (feature_outcome D G (ps_self ?st1)) feats)"
      "lyr_id (ps_self st') = lyr_id (ps_self ?st1)"
      "in_sync st'"
      "db_areas (ps_db st') = db_areas (ps_db ?st1) @ new"
      "map (\<lambda>a. (area_name a, area_geom a, area_geom_simplified a)) new =
         created_of (feature_outcome D G (ps_self ?st1)) feats"
      "\<forall>a \<in> set new. area_aggregationlayer a = Some (lyr_id (ps_self ?st1))"
      "db_results (ps_db st') = db_results (ps_db ?st1)"
      "db_result_rasterlayers (ps_db st') = db_result_rasterlayers (ps_db ?st1)"
      by blast
    from IH step Inr c show ?thesis by (intro exI[of _ st'] exI[of _ "?a # new"]) simp
  qed
qed

lemma log_entries_append:
  "log_entries S n (xs @ ys) = log_entries S n xs @ log_entries S (n + length xs) ys"
  by (induction xs arbitrary: n) simp_all

lemma parse_without_log:
  "lyr_parse_log (ps_self st0) = None \<Longrightarrow> parse lower S D G sf st0 = Inl TypeError"
  by (simp add: parse_def log_None)

lemma parse_aborts:
  assumes "file_level_failure lower (ps_self st0) sf" and "lyr_parse_log (ps_self st0) = Some l"
  shows "\<exists>msg. take 7 msg = ''Error: '' \<and>
           parse lower S D G sf st0 =
             Inr (logged S msg
                    (logged S (''Started parsing Aggregation Layer '' @ str_nat (lyr_id (ps_self st0))) st0))"
proof -
  let ?st = "logged S (''Started parsing Aggregation Layer '' @ str_nat (lyr_id (ps_self st0))) st0"
  have started: "AggregationLayer_log S
      (''Started parsing Aggregation Layer '' @ str_nat (lyr_id (ps_self st0))) False st0 = Inr ?st"
    using assms(2) by (rule log_logged)
  have l1: "lyr_parse_log (ps_self ?st) =
      Some (l @ log_entry S (ps_clock st0)
                  (''Started parsing Aggregation Layer '' @ str_nat (lyr_id (ps_self st0))))"
    using assms(2) by simp
  note lg = log_logged[OF l1]
  consider (download) "\<not> sf_download_ok sf"
    | (zip) "sf_download_ok sf" "\<not> sf_zip_ok sf"
    | (layer) "sf_download_ok sf" "sf_zip_ok sf" "sf_layer sf = None"
    | (column) lyr where "sf_download_ok sf" "sf_zip_ok sf" "sf_layer sf = Some lyr"
        "lower (lyr_name_column (ps_self st0)) \<notin> set (map lower (ogr_fields lyr))"
    | (srs) lyr where "sf_download_ok sf" "sf_zip_ok sf" "sf_layer sf = Some lyr"
        "lower (lyr_name_column (ps_self st0)) \<in> set (map lower (ogr_fields lyr))" "\<not> ogr_srs_ok lyr"
    using assms(1) by (auto simp: file_level_failure_def split: option.splits)
  then show ?thesis
  proof cases
    case download
    then have "parse lower S D G sf st0 =
        Inr (logged S ''Error: Could not download file, aborted parsing'' ?st)"
      by (simp add: parse_def started[simplified] lg[simplified])
    then show ?thesis by (intro exI[of _ "''Error: Could not download file, aborted parsing''"]) simp
  next
    case zip
    then have "parse lower S D G sf st0 =
        Inr (logged S ''Error: Could not open zipfile, aborted parsing'' ?st)"
      by (simp add: parse_def started[simplified] lg[simplified])
    then show ?thesis by (intro exI[of _ "''Error: Could not open zipfile, aborted parsing''"]) simp
  next
    case layer
    then have "parse lower S D G sf st0 =
        Inr (logged S ''Error: Failed to extract layer from shapefile, aborted parsing'' ?st)"
      by (simp add: parse_def started[simplified] lg[simplified])
    then show ?thesis
      by (intro exI[of _ "''Error: Failed to extract layer from shapefile, aborted parsing''"]) simp
  next
    case column
    let ?msg = "''Error: Name column \"'' @ lyr_name_column (ps_self st0) @
                ''\" not found, aborted parsing. Available columns: '' @
                ogr_format_fields D (ogr_fields lyr)"
    from column have "parse lower S D G sf st0 = Inr (logged S ?msg ?st)"
      by (simp add: parse_def started[simplified] lg[simplified])
    then show ?thesis by (intro exI[of _ ?msg]) simp
  next
    case srs
    then have "parse lower S D G sf st0 =
        Inr (logged S ''Error: Layer srs not specified, aborted parsing'' ?st)"
      by (simp add: parse_def started[simplified] lg[simplified])
    then show ?thesis by (intro exI[of _ "''Error: Layer srs not specified, aborted parsing''"]) simp
  qed
qed

lemma delete_areas_simps [simp]:
  "db_areas (delete_areas P db) = filter (\<lambda>a. \<not> P a) (db_areas db)"
  "db_layers (delete_areas P db) = db_layers db"
  "db_area_seq (delete_areas P db) = db_area_seq db"
  by (simp_all add: delete_areas_def delete_results_def Let_def)

lemma parse_completes:
  assumes "\<not> file_level_failure lower (ps_self st0) sf" and "lyr_parse_log (ps_self st0) = Some l"
      and "area_seq_fresh (ps_db st0)"
  shows "\<exists>st lyr new.
           sf_layer sf = Some lyr \<and> parse lower S D G sf st0 = Inr st \<and>
           lyr_parse_log (ps_self st) =
             Some (l @ log_entries S (ps_clock st0)
                        ((''Started parsing Aggregation Layer '' @ str_nat (lyr_id (ps_self st0))) #
                         warnings_of (feature_outcome D G (ps_self st0)) (ogr_features lyr) @
                         [''Finished parsing Aggregation Layer '' @ str_nat (lyr_id (ps_self st0))])) \<and>
           in_sync st \<and>
           db_areas (ps_db st) =
             filter (\<lambda>a. area_aggregationlayer a \<noteq> Some (lyr_id (ps_self st0))) (db_areas (ps_db st0)) @ new \<and>
           map (\<lambda>a. (area_name a, area_geom a, area_geom_simplified a)) new =
             created_of (feature_outcome D G (ps_self st0)) (ogr_features lyr) \<and>
           (\<forall>a \<in> set new. area_aggregationlayer a = Some (lyr_id (ps_self st0)))"
proof -
  let ?started = "''Started parsing Aggregation Layer '' @ str_nat (lyr_id (ps_self st0))"
  let ?finished = "''Finished parsing Aggregation Layer '' @ str_nat (lyr_id (ps_self st0))"
  let ?st = "logged S ?started st0"
  from assms(1) obtain lyr where ok:
    "sf_download_ok sf" "sf_zip_ok sf" "sf_layer sf = Some lyr"
    "lower (lyr_name_column (ps_self st0)) \<in> set (map lower (ogr_fields lyr))" "ogr_srs_ok lyr"
    by (auto simp: file_level_failure_def split: option.splits)
  have started: "AggregationLayer_log S ?started False st0 = Inr ?st"
    using assms(2) by (rule log_logged)
  let ?st1 = "?st\<lparr>ps_db := delete_areas (\<lambda>a. area_aggregationlayer a = Some (lyr_id (ps_self ?st)))
                                 (ps_db ?st)\<rparr>"
  have l1: "lyr_parse_log (ps_self ?st1) = Some (l @ log_entry S (ps_clock st0) ?started)"
    using assms(2) by simp
  have s1: "in_sync ?st1"
    using logged_in_sync[of S ?started st0] by (simp add: in_sync_def)
  have f1: "area_seq_fresh (ps_db ?st1)"
    using assms(3) by (auto simp: area_seq_fresh_def split: option.splits)
  from parse_features_closed[OF l1 s1 f1, of S D G "ogr_features lyr"]
  obtain st2 new where loop:
    "parse_features S D G (ogr_features lyr) ?st1 = Inr st2"
    "lyr_parse_log (ps_self st2) =
       Some ((l @ log_entry S (ps_clock st0) ?started) @
             log_entries S (ps_clock ?st1) (warnings_of (feature_outcome D G (ps_self ?st1)) (ogr_features lyr)))"
    "ps_clock st2 = ps_clock ?st1 + length (warnings_of (feature_outcome D G (ps_self ?st1)) (ogr_features lyr))"
    "lyr_id (ps_self st2) = lyr_id (ps_self ?st1)"
    "db_areas (ps_db st2) = db_areas (ps_db ?st1) @ new"
    "map (\<lambda>a. (area_name a, area_geom a, area_geom_simplified a)) new =
       created_of (feature_outcome D G (ps_self ?st1)) (ogr_features lyr)"
    "\<forall>a \<in> set new. area_aggregationlayer a = Some (lyr_id (ps_self ?st1))"
    by blast
  have out: "feature_outcome D G (ps_self ?st1) = feature_outcome D G (ps_self st0)"
    by simp
  let ?st3 = "logged S ?finished st2"
  have fin: "AggregationLayer_log S
               (''Finished parsing Aggregation Layer '' @ str_nat (lyr_id (ps_self st2))) False st2 =
             Inr ?st3"
    using loop(2,4) log_logged[of st2 _ S ?finished] by simp
  have p: "parse lower S D G sf st0 = Inr ?st3"
    using ok started[simplified] loop(1)[simplified] fin[simplified] by (simp add: parse_def Let_def)
  have lg: "lyr_parse_log (ps_self ?st3) =
      Some (l @ log_entries S (ps_clock st0)
                 (?started # warnings_of (feature_outcome D G (ps_self st0)) (ogr_features lyr) @ [?finished]))"
    using loop(2,3) out by (simp add: log_entries_append)
  have ar: "db_areas (ps_db ?st3) =
      filter (\<lambda>a. area_aggregationlayer a \<noteq> Some (lyr_id (ps_self st0))) (db_areas (ps_db st0)) @ new"
    using loop(5) by simp
  from ok(3) p lg ar loop(6,7) out show ?thesis
    by (intro exI[of _ ?st3] exI[of _ lyr] exI[of _ new]) simp
qed

text \<open>
  The runs on a layer whose parse log is not \<open>NULL\<close>: when one of the
  checks on the file fails, the run returns with two entries appended to the log, each
  with its time stamp, the entry of the start and an entry that begins with
  \<open>Error:\<close>, and nothing else is done; when none fails, the run goes through all
  features and returns with the log extended by the entry of the start, one warning with
  its time stamp for every feature that fails at some step, in the order of the features,
  and the entry of the end, and the areas of the layer are then the areas of the features
  that did not fail, one for each, the areas of the other layers being as before.  The
  second part takes the key sequence of the area table to be ahead of the keys in use.
\<close>

lemma parse_failures_logged:
  assumes "lyr_parse_log (ps_self st0) = Some l"
  shows "(file_level_failure lower (ps_self st0) sf \<longrightarrow>
            (\<exists>st msg. parse lower S D G sf st0 = Inr st \<and> take 7 msg = ''Error: '' \<and>
               lyr_parse_log (ps_self st) =
                 Some (l @ log_entries S (ps_clock st0)
                            [''Started parsing Aggregation Layer '' @ str_nat (lyr_id (ps_self st0)), msg]) \<and>
               ps_clock st = ps_clock st0 + 2 \<and> in_sync st \<and>
               db_areas (ps_db st) = db_areas (ps_db st0))) \<and>
         (\<not> file_level_failure lower (ps_self st0) sf \<and> area_seq_fresh (ps_db st0) \<longrightarrow>
            (\<exists>st lyr new.
               sf_layer sf = Some lyr \<and> parse lower S D G sf st0 = Inr st \<and>
               lyr_parse_log (ps_self st) =
                 Some (l @ log_entries S (ps_clock st0)
                            ((''Started parsing Aggregation Layer '' @ str_nat (lyr_id (ps_self st0))) #
                             warnings_of (feature_outcome D G (ps_self st0)) (ogr_features lyr) @
                             [''Finished parsing Aggregation Layer '' @ str_nat (lyr_id (ps_self st0))])) \<and>
               in_sync st \<and>
               db_areas (ps_db st) =
                 filter (\<lambda>a. area_aggregationlayer a \<noteq> Some (lyr_id (ps_self st0)))
                   (db_areas (ps_db st0)) @ new \<and>
               map (\<lambda>a. (area_name a, area_geom a, area_geom_simplified a)) new =
                 created_of (feature_outcome D G (ps_self st0)) (ogr_features lyr) \<and>
               (\<forall>a \<in> set new. area_aggregationlayer a = Some (lyr_id (ps_self st0)))))"
proof (intro conjI impI)
  assume fail: "file_level_failure lower (ps_self st0) sf"
  let ?started = "''Started parsing Aggregation Layer '' @ str_nat (lyr_id (ps_self st0))"
  from parse_aborts[OF fail assms, of S D G] obtain msg where msg:
    "take 7 msg = ''Error: ''"
    "parse lower S D G sf st0 = Inr (logged S msg (logged S ?started st0))"
    by blast
  show "\<exists>st msg. parse lower S D G sf st0 = Inr st \<and> take 7 msg = ''Error: '' \<and>
               lyr_parse_log (ps_self st) =
                 Some (l @ log_entries S (ps_clock st0) [?started, msg]) \<and>
               ps_clock st = ps_clock st0 + 2 \<and> in_sync st \<and>
               db_areas (ps_db st) = db_areas (ps_db st0)"
    using msg assms
    by (intro exI[of _ "logged S msg (logged S ?started st0)"] exI[of _ msg]) simp
next
  assume "\<not> file_level_failure lower (ps_self st0) sf \<and> area_seq_fresh (ps_db st0)"
  then have ok: "\<not> file_level_failure lower (ps_self st0) sf" and fresh: "area_seq_fresh (ps_db st0)"
    by simp_all
  from parse_completes[OF ok assms fresh, of S D G]
  show "\<exists>st lyr new.
               sf_layer sf = Some lyr \<and> parse lower S D G sf st0 = Inr st \<and>
               lyr_parse_log (ps_self st) =
                 Some (l @ log_entries S (ps_clock st0)
                            ((''Started parsing Aggregation Layer '' @ str_nat (lyr_id (ps_self st0))) #
                             warnings_of (feature_outcome D G (ps_self st0)) (ogr_features lyr) @
                             [''Finished parsing Aggregation Layer '' @ str_nat (lyr_id (ps_self st0))])) \<and>
               in_sync st \<and>
               db_areas (ps_db st) =
                 filter (\<lambda>a. area_aggregationlayer a \<noteq> Some (lyr_id (ps_self st0)))
                   (db_areas (ps_db st0)) @ new \<and>
               map (\<lambda>a. (area_name a, area_geom a, area_geom_simplified a)) new =
                 created_of (feature_outcome D G (ps_self st0)) (ogr_features lyr) \<and>
               (\<forall>a \<in> set new. area_aggregationlayer a = Some (lyr_id (ps_self st0)))" .
qed

lemma parse_failures_logged_fixture:
  "file_level_failure ascii_lower (ps_self fixture_parse_state) fixture_bad_archive \<and>
   (\<exists>st. parse ascii_lower fixture_strftime fixture_ogr box_geos fixture_bad_archive fixture_parse_state = Inr st \<and>
         lyr_parse_log (ps_self st) =
           Some (log_entries fixture_strftime 0
                   [''Started parsing Aggregation Layer 10'',
                    ''Error: Could not open zipfile, aborted parsing'']) \<and>
         ps_clock st = 2) \<and>
   \<not> file_level_failure ascii_lower (ps_self fixture_parse_state) fixture_shapefile \<and>
   area_seq_fresh (ps_db fixture_parse_state) \<and>
   (\<exists>st. parse ascii_lower fixture_strftime fixture_ogr box_geos fixture_shapefile fixture_parse_state = Inr st \<and>
         lyr_parse_log (ps_self st) =
           Some (log_entries fixture_strftime 0
                   [''Started parsing Aggregation Layer 10'',
                    ''Warning: Failed to transform feature fid 1'' @ [CHR 0x0A],
                    ''Warning: Found invalid geometry for feature fid 2'' @ [CHR 0x0A],
                    ''Warning: Failed to convert feature fid 3 to valid geometry'' @ [CHR 0x0A],
                    ''Warning: Failed to create AggregationArea for feature fid 4'' @ [CHR 0x0A],
                    ''Finished parsing Aggregation Layer 10'']) \<and>
         map area_name (db_areas (ps_db st)) =
           [Some ''Florida'', Some ''Coverall'', Some ''St Petersburg''])"
proof -
  have lg: "lyr_parse_log (ps_self fixture_parse_state) = Some ''''" by code_simp
  have fail: "file_level_failure ascii_lower (ps_self fixture_parse_state) fixture_bad_archive" by code_simp
  have ok: "\<not> file_level_failure ascii_lower (ps_self fixture_parse_state) fixture_shapefile" by code_simp
  have fresh: "area_seq_fresh (ps_db fixture_parse_state)" by code_simp
  note thm1 = parse_failures_logged[OF lg, of ascii_lower fixture_bad_archive fixture_strftime fixture_ogr box_geos]
  note thm2 = parse_failures_logged[OF lg, of ascii_lower fixture_shapefile fixture_strftime fixture_ogr box_geos]
  have c0: "ps_clock fixture_parse_state = 0" and id: "str_nat (lyr_id (ps_self fixture_parse_state)) = ''10''"
    by code_simp+
  have p1: "(case parse ascii_lower fixture_strftime fixture_ogr box_geos fixture_bad_archive fixture_parse_state of
               Inl e \<Rightarrow> None | Inr st \<Rightarrow> Some (lyr_parse_log (ps_self st), ps_clock st)) =
            Some (Some (log_entries fixture_strftime 0
                   [''Started parsing Aggregation Layer 10'',
                    ''Error: Could not open zipfile, aborted parsing'']), 2)"
    by code_simp
  have a: "\<exists>st. parse ascii_lower fixture_strftime fixture_ogr box_geos fixture_bad_archive fixture_parse_state = Inr st \<and>
         lyr_parse_log (ps_self st) =
           Some (log_entries fixture_strftime 0
                   [''Started parsing Aggregation Layer 10'',
                    ''Error: Could not open zipfile, aborted parsing'']) \<and>
         ps_clock st = 2"
    using thm1 fail p1 by (auto split: sum.splits)
  have w: "warnings_of (feature_outcome fixture_ogr box_geos (ps_self fixture_parse_state))
             fixture_features =
           [''Warning: Failed to transform feature fid 1'' @ [CHR 0x0A],
            ''Warning: Found invalid geometry for feature fid 2'' @ [CHR 0x0A],
            ''Warning: Failed to convert feature fid 3 to valid geometry'' @ [CHR 0x0A],
            ''Warning: Failed to create AggregationArea for feature fid 4'' @ [CHR 0x0A]]"
    by code_simp
  have c: "created_of (feature_outcome fixture_ogr box_geos (ps_self fixture_parse_state))
             fixture_features =
           [(Some ''Coverall'', (0, 0, 100, 100), Some (0, 0, 100, 100)),
            (Some ''St Petersburg'', (5, 5, 15, 15), Some (5, 5, 15, 15))]"
    by code_simp
  have keep: "filter (\<lambda>a. area_aggregationlayer a \<noteq> Some (lyr_id (ps_self fixture_parse_state)))
                (db_areas (ps_db fixture_parse_state)) = [fixture_area 4 ''Florida'' 20 (0, 0, 200, 200)]"
    by code_simp
  have feats: "sf_layer fixture_shapefile = Some lyr \<Longrightarrow> ogr_features lyr = fixture_features" for lyr
    by (auto simp: fixture_shapefile_def)
  from thm2 ok fresh obtain st lyr new where b:
    "sf_layer fixture_shapefile = Some lyr"
    "parse ascii_lower fixture_strftime fixture_ogr box_geos fixture_shapefile fixture_parse_state = Inr st"
    "lyr_parse_log (ps_self st) =
       Some ('''' @ log_entries fixture_strftime (ps_clock fixture_parse_state)
          ((''Started parsing Aggregation Layer '' @ str_nat (lyr_id (ps_self fixture_parse_state))) #
           warnings_of (feature_outcome fixture_ogr box_geos (ps_self fixture_parse_state)) (ogr_features lyr) @
           [''Finished parsing Aggregation Layer '' @ str_nat (lyr_id (ps_self fixture_parse_state))]))"
    "db_areas (ps_db st) =
       filter (\<lambda>a. area_aggregationlayer a \<noteq> Some (lyr_id (ps_self fixture_parse_state)))
         (db_areas (ps_db fixture_parse_state)) @ new"
    "map (\<lambda>a. (area_name a, area_geom a, area_geom_simplified a)) new =
       created_of (feature_outcome fixture_ogr box_geos (ps_self fixture_parse_state)) (ogr_features lyr)"
    by blast
  from b(5) feats[OF b(1)] c have "map fst (map (\<lambda>a. (area_name a, area_geom a, area_geom_simplified a)) new) =
      [Some ''Coverall'', Some ''St Petersburg'']" by simp
  then have names: "map area_name new = [Some ''Coverall'', Some ''St Petersburg'']"
    by (simp add: o_def)
  have fl: "area_name (fixture_area 4 ''Florida'' 20 (0, 0, 200, 200)) = Some ''Florida''"
    by (simp add: fixture_area_def)
  have b': "\<exists>st. parse ascii_lower fixture_strftime fixture_ogr box_geos fixture_shapefile fixture_parse_state = Inr st \<and>
         lyr_parse_log (ps_self st) =
           Some (log_entries fixture_strftime 0
                   [''Started parsing Aggregation Layer 10'',
                    ''Warning: Failed to transform feature fid 1'' @ [CHR 0x0A],
                    ''Warning: Found invalid geometry for feature fid 2'' @ [CHR 0x0A],
                    ''Warning: Failed to convert feature fid 3 to valid geometry'' @ [CHR 0x0A],
                    ''Warning: Failed to create AggregationArea for feature fid 4'' @ [CHR 0x0A],
                    ''Finished parsing Aggregation Layer 10'']) \<and>
         map area_name (db_areas (ps_db st)) =
           [Some ''Florida'', Some ''Coverall'', Some ''St Petersburg'']"
    using b(2,3,4) feats[OF b(1)] w c0 id keep names fl
    by (intro exI[of _ st]) simp
  from fail a ok fresh b' show ?thesis by simp
qed

text \<open>
  Claim C9 speaks of every run: a failure at the level of the file ends the run after an
  entry with its time stamp has been recorded in the log, a failure of one feature is
  recorded as a warning and the run goes on to its end.  \<open>log\<close> appends with \<open>+=\<close> to
  a column that may hold \<open>NULL\<close>, and the first call of \<open>log\<close> in \<open>parse\<close> is outside
  every \<open>try\<close>.  On the layer of the small world with \<open>NULL\<close> in its log the run
  raises \<open>TypeError\<close> there: nothing is recorded, no check on the file is reached and
  no feature is read, for the file whose archive cannot be opened as for the file with
  its six features.
\<close>

theorem parse_null_log_raises:
  "lyr_parse_log (ps_self fixture_null_log_state) = None \<and>
   sf_zip_ok fixture_bad_archive = False \<and>
   parse ascii_lower fixture_strftime fixture_ogr box_geos fixture_bad_archive
     fixture_null_log_state = Inl TypeError \<and>
   parse ascii_lower fixture_strftime fixture_ogr box_geos fixture_shapefile
     fixture_null_log_state = Inl TypeError"
  by code_simp

text \<open>
  Claim C10.  A run that ends at one of the checks on the file returns with the areas
  as they were, and with them the cached results: the areas of the layer are deleted only
  after the five checks.
\<close>

theorem aborted_parse_keeps_areas:
  assumes "file_level_failure lower (ps_self st0) sf" and "parse lower S D G sf st0 = Inr st"
  shows "db_areas (ps_db st) = db_areas (ps_db st0) \<and>
         db_results (ps_db st) = db_results (ps_db st0) \<and>
         db_result_rasterlayers (ps_db st) = db_result_rasterlayers (ps_db st0)"
proof (cases "lyr_parse_log (ps_self st0)")
  case None
  with assms(2) show ?thesis by (simp add: parse_without_log)
next
  case (Some l)
  from parse_aborts[OF assms(1) Some, of S D G] assms(2) show ?thesis by auto
qed

theorem aborted_parse_keeps_areas_witness:
  "file_level_failure ascii_lower (ps_self fixture_parse_state) fixture_shapefile_no_srs \<and>
   (\<exists>st. parse ascii_lower fixture_strftime fixture_ogr box_geos fixture_shapefile_no_srs fixture_parse_state = Inr st \<and>
         db_areas (ps_db st) = db_areas fixture_db \<and>
         db_results (ps_db st) = db_results fixture_db) \<and>
   map area_id (db_areas fixture_db) = [Some 1, Some 2, Some 3, Some 4]"
proof -
  have fail: "file_level_failure ascii_lower (ps_self fixture_parse_state) fixture_shapefile_no_srs"
    by code_simp
  have lg: "lyr_parse_log (ps_self fixture_parse_state) = Some ''''" by code_simp
  from parse_aborts[OF fail lg, of fixture_strftime fixture_ogr box_geos]
  obtain st where st:
    "parse ascii_lower fixture_strftime fixture_ogr box_geos fixture_shapefile_no_srs fixture_parse_state = Inr st"
    by blast
  have db: "ps_db fixture_parse_state = fixture_db" by (simp add: fixture_parse_state_def)
  have ids: "map area_id (db_areas fixture_db) = [Some 1, Some 2, Some 3, Some 4]" by code_simp
  from aborted_parse_keeps_areas[OF fail st] st db fail ids show ?thesis by simp
qed

end
